theory Spec2Isabelle
  imports Main
begin

section \<open>Values exchanged with the transport\<close>

text \<open>
  Response bodies are JSON. A number is modelled as an integer; the code only ever
  prints one (when it joins the messages of \<open>response.data.errors\<close>).
\<close>

datatype json =
    JNull
  | JBool bool
  | JNum int
  | JStr string
  | JArr "json list"
  | JObj "(string \<times> json) list"

text \<open>\<open>AxiosResponse\<close>: the fields the adapter reads.\<close>

record response =
  r_data :: json
  r_status :: nat
  r_headers :: "string \<rightharpoonup> string"

text \<open>
  \<open>AxiosError\<close>: \<open>e_response\<close> is \<open>None\<close> when no response was received
  (connectivity failure, cancellation); \<open>e_message\<close> is \<open>err.message\<close>, the empty string
  standing for an absent one (both are falsy).
\<close>

record axios_error =
  e_response :: "response option"
  e_message :: string

text \<open>
  What a caller's promise is resolved with: the cache branch calls \<open>resolve({ data })\<close>,
  the transport branch \<open>resolve(response)\<close>.
\<close>

datatype payload = DataOnly json | FullResponse response

text \<open>
  What a caller's promise is rejected with: \<open>reject(Error(errorMessage))\<close> or
  \<open>reject(err)\<close>.
\<close>

datatype rejection = ErrorValue string | RawError axios_error

fun payload_data :: "payload \<Rightarrow> json" where
  "payload_data (DataOnly d) = d"
| "payload_data (FullResponse r) = r_data r"

fun payload_status :: "payload \<Rightarrow> nat option" where
  "payload_status (DataOnly d) = None"
| "payload_status (FullResponse r) = Some (r_status r)"

fun payload_headers :: "payload \<Rightarrow> (string \<rightharpoonup> string) option" where
  "payload_headers (DataOnly d) = None"
| "payload_headers (FullResponse r) = Some (r_headers r)"

section \<open>Request options\<close>

text \<open>
  \<open>options.data\<close>: absent, a plain (JSON) value, or a \<open>FormData\<close> object, which is
  known by its identity only.
\<close>

datatype request_data = NoData | Data json | FormData nat

text \<open>
  \<open>{ ...options, url }\<close>: what is left of the request options once \<open>fetchData\<close> has
  taken \<open>headers\<close>, \<open>label\<close>, \<open>processResponse\<close>, \<open>cacheId\<close>, \<open>onServerSuccess\<close>,
  \<open>getStaleWhileRevalidate\<close> and \<open>queryParams\<close> out, with the resolved url added.
  \<open>getRequestController\<close> is the identity of the caller's callback, \<open>axios_config\<close> the
  remaining \<open>AxiosRequestConfig\<close> entries.
\<close>

record request_options =
  url :: string
  request_method :: "string option"
  data :: request_data
  getRequestController :: "nat option"
  axios_config :: "(string \<times> json) list"

text \<open>
  \<open>QueuedRequestOptions\<close>: the above with the \<open>resolve\<close> and \<open>reject\<close> of the
  caller's promise; \<open>waiter\<close> names that promise.
\<close>

record queued_request_options = request_options +
  waiter :: nat

section \<open>Observable effects\<close>

datatype event =
    TransportCall nat nat "string \<rightharpoonup> string"
  | ControllerGiven nat nat
  | StaleNotified json
  | ConsoleError string
  | ErrorEvent nat axios_error
  | Cancel nat
  | CacheWrite string nat json
  | ServerSuccess response
  | Resolve nat payload
  | Reject nat rejection

fun is_TransportCall :: "event \<Rightarrow> bool" where
  "is_TransportCall (TransportCall c n h) = True"
| "is_TransportCall e = False"

definition transport_calls :: "event list \<Rightarrow> nat" where
  "transport_calls tr = length (filter is_TransportCall tr)"

text \<open>
  The calls of the callers' \<open>resolve\<close> and \<open>reject\<close> in a trace, in order: what the
  callers' promises are settled with.
\<close>

fun is_settlement :: "event \<Rightarrow> bool" where
  "is_settlement (Resolve w p) = True"
| "is_settlement (Reject w x) = True"
| "is_settlement e = False"

definition settlements :: "event list \<Rightarrow> event list" where
  "settlements tr = filter is_settlement tr"

text \<open>
  The module-level and adapter-level mutable state: \<open>requestQueue\<close> of RequestQueue.ts,
  and of \<open>getAPIAdapter\<close> the registry \<open>pendingRequestCancelTokenSources\<close>, the object
  \<open>defaultRequestHeaders\<close>, what \<open>StorageManager\<close> holds under
  \<open>defaultRequestHeadersStorageKey\<close>, and the listeners of \<open>eventsQueue.error\<close>.
  \<open>sourcesCreated\<close> counts the calls of \<open>axios.CancelToken.source()\<close>, so that each
  source has an identity; \<open>trace\<close> records the calls that leave the adapter.
\<close>

record adapter_state =
  requestQueue :: "nat \<rightharpoonup> queued_request_options list"
  pendingRequestCancelTokenSources :: "nat list"
  defaultRequestHeaders :: "string \<rightharpoonup> string"
  storedRequestHeaders :: "(string \<rightharpoonup> string) option"
  eventsQueue_error :: "nat list"
  sourcesCreated :: nat
  trace :: "event list"

section \<open>RequestQueue.ts\<close>

text \<open>
  \<open>hashableRequestOptions\<close>: a copy of the queued options in which a \<open>FormData\<close> body is
  replaced by \<open>Date.now()\<close> (the parameter \<open>now\<close>), when the environment defines
  \<open>FormData\<close> at all (the parameter \<open>hasFormData\<close>).

  The hash function \<open>hashIt\<close> of the hash-it package is a parameter of the model. It
  hashes a function through its source text, and the \<open>resolve\<close> and \<open>reject\<close> of a
  promise are the runtime's own resolving functions, with the same text for every
  promise: they add the same to every hashable (else no two calls would ever share a
  group). So the hashable of the model is the record without them.
\<close>

definition hashableRequestOptions ::
    "bool \<Rightarrow> nat \<Rightarrow> queued_request_options \<Rightarrow> request_options" where
  "hashableRequestOptions hasFormData now requestOptions =
     (case data requestOptions of
        FormData fd \<Rightarrow>
          if hasFormData
          then (request_options.truncate requestOptions)\<lparr>data := Data (JNum (int now))\<rparr>
          else request_options.truncate requestOptions
      | _ \<Rightarrow> request_options.truncate requestOptions)"

text \<open>
  \<open>queueRequest\<close>. The key is the hash itself (\<open>String\<close> is one-to-one on numbers).
  The result says whether \<open>callback\<close> was invoked: \<open>Some requestId\<close> when it was, with
  the \<open>resolve\<close> and \<open>reject\<close> that settle the group \<open>requestId\<close>.
\<close>

definition queueRequest ::
    "(request_options \<Rightarrow> nat) \<Rightarrow> bool \<Rightarrow> nat \<Rightarrow> queued_request_options \<Rightarrow> adapter_state
      \<Rightarrow> nat option \<times> adapter_state" where
  "queueRequest hashIt hasFormData now requestOptions s =
     (let requestId = hashIt (hashableRequestOptions hasFormData now requestOptions) in
      case requestQueue s requestId of
        Some queued \<Rightarrow>
          (None, s\<lparr>requestQueue := (requestQueue s)(requestId \<mapsto> queued @ [requestOptions])\<rparr>)
      | None \<Rightarrow>
          (Some requestId, s\<lparr>requestQueue := (requestQueue s)(requestId \<mapsto> [requestOptions])\<rparr>))"

definition dequeueRequest :: "nat \<Rightarrow> adapter_state \<Rightarrow> adapter_state" where
  "dequeueRequest key s = s\<lparr>requestQueue := (requestQueue s)(key := None)\<rparr>"

definition resolveRequest :: "nat \<Rightarrow> payload \<Rightarrow> adapter_state \<Rightarrow> adapter_state" where
  "resolveRequest requestKey p s =
     (case requestQueue s requestKey of
        None \<Rightarrow> s
      | Some queued \<Rightarrow>
          if length queued > 0
          then dequeueRequest requestKey
                 (s\<lparr>trace := trace s @ map (\<lambda>q. Resolve (waiter q) p) queued\<rparr>)
          else s)"

definition rejectRequest :: "nat \<Rightarrow> rejection \<Rightarrow> adapter_state \<Rightarrow> adapter_state" where
  "rejectRequest requestKey err s =
     (case requestQueue s requestKey of
        None \<Rightarrow> s
      | Some queued \<Rightarrow>
          if length queued > 0
          then dequeueRequest requestKey
                 (s\<lparr>trace := trace s @ map (\<lambda>q. Reject (waiter q) err) queued\<rparr>)
          else s)"

text \<open>
  A run of calls of \<open>queueRequest\<close>, each with its own clock reading, none of them
  settled in between: the result lists, call by call, whether the callback was invoked.
\<close>

fun enqueue_all ::
    "(request_options \<Rightarrow> nat) \<Rightarrow> bool \<Rightarrow> (nat \<times> queued_request_options) list \<Rightarrow> adapter_state
      \<Rightarrow> nat option list \<times> adapter_state" where
  "enqueue_all hashIt hasFormData [] s = ([], s)"
| "enqueue_all hashIt hasFormData (c # cs) s =
     (case queueRequest hashIt hasFormData (fst c) (snd c) s of
        (d, s1) \<Rightarrow>
          (case enqueue_all hashIt hasFormData cs s1 of
             (ds, s2) \<Rightarrow> (d # ds, s2)))"

section \<open>Adapter.ts: constants and collaborators\<close>

definition CANCELLED_API_REQUEST_MESSAGE :: string where
  "CANCELLED_API_REQUEST_MESSAGE = ''Request Cancelled''"

definition EXPIRED_SESSION_ERROR_MESSAGES :: "string list" where
  "EXPIRED_SESSION_ERROR_MESSAGES =
     [''Session timed out'', ''Session expired'', ''User session timed out'',
      ''User session expired'', ''Invalid token'']"

definition FAILED_REQUEST_RETRY_STATUS_BLACKLIST :: "nat list" where
  "FAILED_REQUEST_RETRY_STATUS_BLACKLIST = [400, 401, 500]"

definition MAX_REQUEST_RETRY_COUNT :: nat where
  "MAX_REQUEST_RETRY_COUNT = 2"

text \<open>
  What \<open>getCachedData\<close> resolves to: \<open>{ isStale?, data }\<close>.
\<close>

record cache_entry =
  isStale :: "bool option"
  entry_data :: json

text \<open>
  \<open>APIRequestCache\<close>. \<open>getCachedData cacheId requestId headers options\<close> gives
  \<open>Inr None\<close> for \<open>null\<close> and \<open>Inl e\<close> when its promise rejects with \<open>e\<close>.
  \<open>cacheData\<close> has no result the adapter looks at (its failure is caught and dropped),
  so a call of it is an event of the trace and nothing more.
\<close>

record api_request_cache =
  getCachedData ::
    "string \<Rightarrow> nat \<Rightarrow> (string \<rightharpoonup> string) \<Rightarrow> request_options \<Rightarrow> string + cache_entry option"

text \<open>
  \<open>IAPIAdapterConfiguration\<close>, without the fields that build the url
  (\<open>HOST_URL\<close>, \<open>getFullResourceURL\<close>) and without \<open>defaultRequestOptions\<close>: the
  model starts from the merged options and the resolved url.
\<close>

record api_adapter_configuration =
  preProcessResponseErrorMessages :: bool
  cache :: "api_request_cache option"

text \<open>
  The optional hooks of the \<open>RequestController\<close> object. A hook that returns a promise
  is modelled by the value the promise resolves to, and the hooks are taken to return.
\<close>

record request_controller =
  RequestController_rotateHeaders ::
    "((string \<rightharpoonup> string) \<Rightarrow> (string \<rightharpoonup> string) \<Rightarrow> (string \<rightharpoonup> string) option) option"
  RequestController_processResponse :: "(response \<Rightarrow> response) option"
  RequestController_processResponseError :: "(axios_error \<Rightarrow> axios_error) option"
  RequestController_shouldRetryRequest :: "(axios_error \<Rightarrow> nat \<Rightarrow> bool) option"

text \<open>
  The request options as \<open>fetchData\<close> destructures them: the named fields, and
  \<open>options\<close> for the rest (with the url). The two callbacks of the caller that
  return nothing, \<open>onServerSuccess\<close> and \<open>getStaleWhileRevalidate\<close>, give \<open>Some e\<close>
  when they throw \<open>e\<close>; \<open>processResponse\<close> is taken to return.
\<close>

record call_options =
  headers :: "string \<rightharpoonup> string"
  label :: "string option"
  processResponse :: "(response \<Rightarrow> response) option"
  cacheId :: "string option"
  onServerSuccess :: "(response \<Rightarrow> string option) option"
  getStaleWhileRevalidate :: "(json \<Rightarrow> string option) option"
  options :: request_options

text \<open>The answer of the transport to one attempt.\<close>

datatype transport_result = Fulfilled response | Failed axios_error

text \<open>
  How the pipeline of one group ends: \<open>resolve\<close> was called, \<open>reject\<close> was called,
  an exception left the pipeline (nobody catches it: \<open>fetchData()\<close> is not awaited, so
  neither \<open>resolve\<close> nor \<open>reject\<close> is ever called), or the transport has not answered.
\<close>

datatype outcome = Resolved payload | Rejected rejection | Uncaught string | InFlight

datatype step = Retry | Done outcome

text \<open>
  What the callers waiting in a group see of an outcome: the payload (the error) each,
  in the order they were queued, and nothing as long as the group is not settled.
  \<open>waiting\<close> is the entry of the group in the queue.
\<close>

definition settlement_of :: "outcome \<Rightarrow> queued_request_options list option \<Rightarrow> event list" where
  "settlement_of out waiting =
     (case waiting of
        None \<Rightarrow> []
      | Some g \<Rightarrow>
          (case out of
             Resolved p \<Rightarrow> map (\<lambda>q. Resolve (waiter q) p) g
           | Rejected x \<Rightarrow> map (\<lambda>q. Reject (waiter q) x) g
           | Uncaught e \<Rightarrow> []
           | InFlight \<Rightarrow> []))"

section \<open>Adapter.ts: strings\<close>

fun join :: "string \<Rightarrow> string list \<Rightarrow> string" where
  "join sep [] = []"
| "join sep [x] = x"
| "join sep (x # y # ys) = x @ sep @ join sep (y # ys)"

text \<open>
  \<open>String\<close> of a number that is an integer: \<open>decimal\<close> gives the digits of one that
  is not negative; JavaScript prints all of them below \<open>1e21\<close>, and from there on the
  exponent form (\<open>1e+21\<close>, \<open>1.5e+22\<close>). The integer stands for a number that a double
  holds exactly, with the digits JavaScript prints for it.
\<close>

function decimal :: "int \<Rightarrow> string" where
  "decimal i =
     (if i < 10 then [char_of (48 + i)]
      else decimal (i div 10) @ [char_of (48 + i mod 10)])"
  by pat_completeness auto
termination
  by (relation "measure nat") auto

definition exponent_form :: "int \<Rightarrow> string" where
  "exponent_form i =
     (let ds = decimal i;
          significant = rev (dropWhile (\<lambda>c. c = CHR ''0'') (rev ds))
      in (case significant of
            [] \<Rightarrow> []
          | d # rest \<Rightarrow> d # (if rest = [] then [] else CHR ''.'' # rest))
         @ ''e+'' @ decimal (int (length ds) - 1))"

definition string_of_int :: "int \<Rightarrow> string" where
  "string_of_int i =
     (if i < 0 then [CHR ''-''] else []) @
     (if \<bar>i\<bar> < 10 ^ 21 then decimal \<bar>i\<bar> else exponent_form \<bar>i\<bar>)"

text \<open>
  \<open>String(x)\<close> of a value, and (\<open>join_item\<close>) what \<open>Array.prototype.join\<close> makes of
  an element: \<open>null\<close> and \<open>undefined\<close> give the empty string there.
\<close>

fun toString :: "json \<Rightarrow> string" where
  "toString JNull = ''null''"
| "toString (JBool b) = (if b then ''true'' else ''false'')"
| "toString (JNum i) = string_of_int i"
| "toString (JStr s) = s"
| "toString (JArr xs) =
     join '','' (map (\<lambda>x. if x = JNull then [] else toString x) xs)"
| "toString (JObj fs) = ''[object Object]''"

definition join_item :: "json option \<Rightarrow> string" where
  "join_item x = (case x of None \<Rightarrow> [] | Some JNull \<Rightarrow> [] | Some v \<Rightarrow> toString v)"

text \<open>JavaScript truthiness of a value.\<close>

fun truthy :: "json \<Rightarrow> bool" where
  "truthy JNull = False"
| "truthy (JBool b) = b"
| "truthy (JNum i) = (i \<noteq> 0)"
| "truthy (JStr s) = (s \<noteq> [])"
| "truthy (JArr xs) = True"
| "truthy (JObj fs) = True"

text \<open>
  Reading a property of a value that is neither \<open>null\<close> nor \<open>undefined\<close>:
  \<open>None\<close> is \<open>undefined\<close>. Only the own properties of an object are modelled.
\<close>

fun get_field :: "json \<Rightarrow> string \<Rightarrow> json option" where
  "get_field (JObj fs) k = map_of fs k"
| "get_field v k = None"

fun is_JStr :: "json \<Rightarrow> bool" where
  "is_JStr (JStr s) = True"
| "is_JStr v = False"

text \<open>
  The regular expression \<open>/request\sfailed/gi\<close>: \<open>ci_prefix lo up s\<close> reads a word in
  either case at the start of \<open>s\<close> and gives the rest. A character of the model is one
  of the first 256 code points; \<open>is_space\<close> is the white space \<open>\s\<close> matches among them
  (tab, line feed, vertical tab, form feed, carriage return, space and the no-break
  space \<open>U+00A0\<close>).
\<close>

fun ci_prefix :: "string \<Rightarrow> string \<Rightarrow> string \<Rightarrow> string option" where
  "ci_prefix [] [] s = Some s"
| "ci_prefix (l # lo) (u # up) (c # s) = (if c = l \<or> c = u then ci_prefix lo up s else None)"
| "ci_prefix lo up s = None"

definition is_space :: "char \<Rightarrow> bool" where
  "is_space c = (c \<in> set [CHR 0x09, CHR 0x0A, CHR 0x0B, CHR 0x0C, CHR 0x0D, CHR 0x20, CHR 0xA0])"

definition request_failed_here :: "string \<Rightarrow> bool" where
  "request_failed_here s =
     (case ci_prefix ''request'' ''REQUEST'' s of
        None \<Rightarrow> False
      | Some [] \<Rightarrow> False
      | Some (c # r) \<Rightarrow> is_space c \<and> ci_prefix ''failed'' ''FAILED'' r \<noteq> None)"

fun request_failed_match :: "string \<Rightarrow> bool" where
  "request_failed_match [] = False"
| "request_failed_match (c # s) = (request_failed_here (c # s) \<or> request_failed_match s)"

section \<open>Adapter.ts: the failure path\<close>

text \<open>
  The server-side message of \<open>response.data\<close>; \<open>None\<close> when reading \<open>err.message\<close>
  of a \<open>null\<close> element of \<open>response.data.errors\<close> throws a TypeError.
\<close>

definition server_message :: "json \<Rightarrow> string option" where
  "server_message d =
     (case get_field d ''message'' of
        Some (JStr m) \<Rightarrow> Some m
      | Some (JArr ms) \<Rightarrow> Some (join [CHR 0x0A] (map toString (filter is_JStr ms)))
      | _ \<Rightarrow>
          (case get_field d ''errors'' of
             Some (JArr es) \<Rightarrow>
               if length es > 0
               then (if JNull \<in> set es then None
                     else Some (join [CHR 0x0A] (map (\<lambda>e. join_item (get_field e ''message'')) es)))
               else Some ''Something went wrong''
           | _ \<Rightarrow> Some ''Something went wrong''))"

definition failed_with_message :: "string \<Rightarrow> string \<Rightarrow> string" where
  "failed_with_message lbl m =
     ''Error: '' @ [CHR 0x27] @ lbl @ [CHR 0x27] @ '' failed with message '' @
     [CHR 0x22] @ m @ [CHR 0x22]"

definition failed_something_went_wrong :: "string \<Rightarrow> string" where
  "failed_something_went_wrong lbl =
     ''Error: '' @ [CHR 0x27] @ lbl @ [CHR 0x27] @ '' failed. Something went wrong''"

text \<open>
  \<open>errorMessage\<close>: the message, and whether \<open>cancelPendingRequests()\<close> was called
  on the way; \<open>None\<close> when the TypeError above is thrown.
\<close>

definition errorMessage :: "string \<Rightarrow> axios_error \<Rightarrow> (string \<times> bool) option" where
  "errorMessage lbl err =
     (case (case e_response err of
              None \<Rightarrow> None
            | Some r \<Rightarrow> if truthy (r_data r) then Some (r_data r) else None) of
        Some d \<Rightarrow>
          (case server_message d of
             None \<Rightarrow> None
           | Some m \<Rightarrow>
               if m \<in> set EXPIRED_SESSION_ERROR_MESSAGES then Some (m, True)
               else Some (failed_with_message lbl m, False))
      | None \<Rightarrow>
          if e_message err \<noteq> [] \<and> \<not> request_failed_match (e_message err)
          then Some (failed_with_message lbl (e_message err), False)
          else Some (failed_something_went_wrong lbl, False))"

text \<open>
  A \<open>const\<close> whose initialiser is still running. Reading it throws a ReferenceError
  where \<open>const\<close> is block scoped by the engine, and gives \<open>undefined\<close> where the build
  has lowered it to \<open>var\<close>; the compiler target is not part of the sources, so it is the
  parameter \<open>blockScoped\<close>. The result is \<open>None\<close> for the ReferenceError,
  \<open>Some None\<close> for \<open>undefined\<close>.
\<close>

datatype 'a binding = Uninitialised | Initialised 'a

definition read_const :: "bool \<Rightarrow> 'a binding \<Rightarrow> 'a option option" where
  "read_const blockScoped b =
     (case b of
        Initialised v \<Rightarrow> Some (Some v)
      | Uninitialised \<Rightarrow> if blockScoped then None else Some None)"

text \<open>
  \<open>requestWillRetry\<close>, with the variable \<open>response\<close> it reads as a parameter. In the
  \<open>catch\<close> handler that name is the \<open>const response\<close> of the enclosing inner
  \<open>fetchData\<close> (the \<open>response\<close> taken from \<open>err\<close> is declared later, inside the block
  of \<open>preProcessResponseErrorMessages\<close>), and the handler runs while that constant is
  still being initialised by the awaited chain the handler belongs to.
\<close>

definition requestWillRetry ::
    "bool \<Rightarrow> request_controller \<Rightarrow> response binding \<Rightarrow> axios_error \<Rightarrow> nat \<Rightarrow> bool option" where
  "requestWillRetry blockScoped ctl response err retryCount =
     (let shouldRetryRequest =
            (case RequestController_shouldRetryRequest ctl of
               Some f \<Rightarrow> f err retryCount
             | None \<Rightarrow> False)
      in if shouldRetryRequest then Some True
         else (case read_const blockScoped response of
                 None \<Rightarrow> None
               | Some None \<Rightarrow> Some False
               | Some (Some r) \<Rightarrow>
                   Some (r_status r \<notin> set FAILED_REQUEST_RETRY_STATUS_BLACKLIST
                         \<and> retryCount < MAX_REQUEST_RETRY_COUNT)))"

text \<open>
  \<open>xs.splice(xs.indexOf(x), 1)\<close>: the first occurrence of \<open>x\<close> goes; when there is none
  \<open>indexOf\<close> is \<open>-1\<close> and \<open>splice(-1, 1)\<close> removes the last element.
\<close>

definition splice_indexOf :: "nat list \<Rightarrow> nat \<Rightarrow> nat list" where
  "splice_indexOf xs x = (if x \<in> set xs then remove1 x xs else butlast xs)"

definition label_of :: "call_options \<Rightarrow> string" where
  "label_of opts = (case label opts of None \<Rightarrow> ''operation'' | Some l \<Rightarrow> l)"

text \<open>
  The \<open>catch\<close> handler of one attempt, up to the point where it either settles the
  group or calls \<open>fetchData(retryCount + 1)\<close>. \<open>requestKey\<close> is the key the callback's
  \<open>reject\<close> is bound to, \<open>cancelTokenSource\<close> the source of this attempt.
\<close>

definition catch_handler ::
    "bool \<Rightarrow> api_adapter_configuration \<Rightarrow> request_controller \<Rightarrow> call_options \<Rightarrow> nat \<Rightarrow> nat \<Rightarrow> nat
      \<Rightarrow> axios_error \<Rightarrow> adapter_state \<Rightarrow> step \<times> adapter_state" where
  "catch_handler blockScoped cfg ctl opts requestKey cancelTokenSource retryCount err0 s =
     (case requestWillRetry blockScoped ctl Uninitialised err0 retryCount of
        None \<Rightarrow> (Done (Uncaught ''ReferenceError''), s)
      | Some willRetry \<Rightarrow>
          let err = (case RequestController_processResponseError ctl of
                       Some f \<Rightarrow> f err0
                     | None \<Rightarrow> err0);
              s1 = s\<lparr>trace := trace s @ map (\<lambda>listener. ErrorEvent listener err) (eventsQueue_error s)\<rparr>
          in if preProcessResponseErrorMessages cfg
             then
               let s2 = s1\<lparr>pendingRequestCancelTokenSources :=
                             splice_indexOf (pendingRequestCancelTokenSources s1) cancelTokenSource\<rparr>
               in (case errorMessage (label_of opts) err of
                     None \<Rightarrow> (Done (Uncaught ''TypeError''), s2)
                   | Some (msg, cancelPendingRequests) \<Rightarrow>
                       let s3 = (if cancelPendingRequests
                                 then s2\<lparr>trace := trace s2 @ map Cancel (pendingRequestCancelTokenSources s2)\<rparr>
                                 else s2)
                       in if \<not> willRetry
                          then (Done (Rejected (ErrorValue msg)), rejectRequest requestKey (ErrorValue msg) s3)
                          else (Retry, s3))
             else if willRetry then (Retry, s1)
             else (Done (Rejected (RawError err)), rejectRequest requestKey (RawError err) s1))"

section \<open>Adapter.ts: the success path\<close>

text \<open>The \<open>then\<close> handler: the value the awaited chain gives to \<open>response\<close>.\<close>

definition then_handler :: "request_controller \<Rightarrow> call_options \<Rightarrow> response \<Rightarrow> response" where
  "then_handler ctl opts response =
     (let requestControllerResponse =
            (case RequestController_processResponse ctl of
               Some f \<Rightarrow> f response
             | None \<Rightarrow> response)
      in case processResponse opts of
           Some f \<Rightarrow> f requestControllerResponse
         | None \<Rightarrow> response)"

text \<open>
  \<open>patchDefaultRequestHeaders\<close>: \<open>Object.assign\<close> into the default headers
  (\<open>undefined\<close> assigns nothing), then the object is stored.
\<close>

definition patchDefaultRequestHeaders ::
    "(string \<rightharpoonup> string) option \<Rightarrow> adapter_state \<Rightarrow> adapter_state" where
  "patchDefaultRequestHeaders hs s =
     (let assigned = (case hs of
                        None \<Rightarrow> defaultRequestHeaders s
                      | Some h \<Rightarrow> defaultRequestHeaders s ++ h)
      in s\<lparr>defaultRequestHeaders := assigned, storedRequestHeaders := Some assigned\<rparr>)"

definition truthy_string :: "string option \<Rightarrow> bool" where
  "truthy_string x = (case x of None \<Rightarrow> False | Some v \<Rightarrow> v \<noteq> [])"

text \<open>
  The steps of the inner \<open>fetchData\<close> after the awaited chain gave it a response.
  First the header rotation.
\<close>

definition rotate_default_headers ::
    "request_controller \<Rightarrow> response \<Rightarrow> adapter_state \<Rightarrow> adapter_state" where
  "rotate_default_headers ctl response s =
     (case RequestController_rotateHeaders ctl of
        Some f \<Rightarrow> patchDefaultRequestHeaders (f (r_headers response) (defaultRequestHeaders s)) s
      | None \<Rightarrow> s)"

text \<open>
  The cache write: \<open>requestId\<close> is the cache key (the hash of \<open>{ ...options, url }\<close>).
\<close>

definition cache_response_data ::
    "api_adapter_configuration \<Rightarrow> call_options \<Rightarrow> nat \<Rightarrow> response \<Rightarrow> adapter_state
      \<Rightarrow> adapter_state" where
  "cache_response_data cfg opts requestId response s =
     (if truthy_string (cacheId opts) \<and> cache cfg \<noteq> None
      then (case cacheId opts of
              Some c \<Rightarrow> s\<lparr>trace := trace s @ [CacheWrite c requestId (r_data response)]\<rparr>
            | None \<Rightarrow> s)
      else s)"

text \<open>
  \<open>onServerSuccess && onServerSuccess(response); return resolve(response)\<close>, with
  \<open>requestKey\<close> the key of the group that \<open>resolve\<close> settles.
\<close>

definition resolve_with_response ::
    "call_options \<Rightarrow> nat \<Rightarrow> response \<Rightarrow> adapter_state \<Rightarrow> outcome \<times> adapter_state" where
  "resolve_with_response opts requestKey response s =
     (case onServerSuccess opts of
        None \<Rightarrow> (Resolved (FullResponse response), resolveRequest requestKey (FullResponse response) s)
      | Some f \<Rightarrow>
          let s1 = s\<lparr>trace := trace s @ [ServerSuccess response]\<rparr>
          in (case f response of
                Some e \<Rightarrow> (Uncaught e, s1)
              | None \<Rightarrow>
                  (Resolved (FullResponse response),
                   resolveRequest requestKey (FullResponse response) s1)))"

text \<open>The block \<open>if (response) { ... }\<close>; a response object is truthy.\<close>

definition on_response ::
    "api_adapter_configuration \<Rightarrow> request_controller \<Rightarrow> call_options \<Rightarrow> nat \<Rightarrow> nat \<Rightarrow> nat
      \<Rightarrow> response \<Rightarrow> adapter_state \<Rightarrow> outcome \<times> adapter_state" where
  "on_response cfg ctl opts requestId requestKey cancelTokenSource response s =
     (let s1 = s\<lparr>pendingRequestCancelTokenSources :=
                   splice_indexOf (pendingRequestCancelTokenSources s) cancelTokenSource\<rparr>;
          s2 = rotate_default_headers ctl response s1;
          s3 = cache_response_data cfg opts requestId response s2
      in resolve_with_response opts requestKey response s3)"

section \<open>Adapter.ts: attempts, cache check, \<open>fetchData\<close>\<close>

text \<open>
  The start of an attempt: a new cancel token source, handed to the caller's
  \<open>getRequestController\<close> if there is one, pushed on the registry; then the call of
  \<open>axios\<close> with the default headers overridden by the call's own.
\<close>

definition start_attempt :: "call_options \<Rightarrow> nat \<Rightarrow> adapter_state \<Rightarrow> nat \<times> adapter_state" where
  "start_attempt opts retryCount s =
     (let cancelTokenSource = sourcesCreated s;
          s1 = s\<lparr>sourcesCreated := Suc (sourcesCreated s)\<rparr>;
          s2 = (case getRequestController (options opts) of
                  Some f \<Rightarrow> s1\<lparr>trace := trace s1 @ [ControllerGiven f cancelTokenSource]\<rparr>
                | None \<Rightarrow> s1);
          s3 = s2\<lparr>pendingRequestCancelTokenSources :=
                   pendingRequestCancelTokenSources s2 @ [cancelTokenSource]\<rparr>
      in (cancelTokenSource,
          s3\<lparr>trace := trace s3 @
                 [TransportCall cancelTokenSource retryCount (defaultRequestHeaders s3 ++ headers opts)]\<rparr>))"

text \<open>
  The inner \<open>fetchData(retryCount)\<close>. The transport's answers to the successive
  attempts are the list \<open>answers\<close>; when it is used up the attempt stays in flight.
\<close>

fun attempts ::
    "bool \<Rightarrow> api_adapter_configuration \<Rightarrow> request_controller \<Rightarrow> call_options \<Rightarrow> nat \<Rightarrow> nat
      \<Rightarrow> nat \<Rightarrow> transport_result list \<Rightarrow> adapter_state \<Rightarrow> outcome \<times> adapter_state" where
  "attempts blockScoped cfg ctl opts requestId requestKey retryCount [] s =
     (InFlight, snd (start_attempt opts retryCount s))"
| "attempts blockScoped cfg ctl opts requestId requestKey retryCount (a # answers) s =
     (case start_attempt opts retryCount s of
        (cancelTokenSource, s1) \<Rightarrow>
          (case a of
             Fulfilled r \<Rightarrow>
               on_response cfg ctl opts requestId requestKey cancelTokenSource (then_handler ctl opts r) s1
           | Failed err \<Rightarrow>
               (case catch_handler blockScoped cfg ctl opts requestKey cancelTokenSource retryCount err s1 of
                  (Retry, s2) \<Rightarrow>
                    attempts blockScoped cfg ctl opts requestId requestKey (Suc retryCount) answers s2
                | (Done out, s2) \<Rightarrow> (out, s2))))"

definition is_get :: "string option \<Rightarrow> bool" where
  "is_get m = (\<not> truthy_string m \<or> m = Some ''get'' \<or> m = Some ''GET'')"

text \<open>
  The callback \<open>fetchData\<close> gives to \<open>queueRequest\<close>: the cache check, then the first
  attempt.
\<close>

definition callback ::
    "bool \<Rightarrow> api_adapter_configuration \<Rightarrow> request_controller \<Rightarrow> call_options \<Rightarrow> nat \<Rightarrow> nat
      \<Rightarrow> transport_result list \<Rightarrow> adapter_state \<Rightarrow> outcome \<times> adapter_state" where
  "callback blockScoped cfg ctl opts requestId requestKey answers s =
     (case (if truthy_string (cacheId opts) \<and> is_get (request_method (options opts)) then cache cfg else None) of
        None \<Rightarrow> attempts blockScoped cfg ctl opts requestId requestKey 0 answers s
      | Some c \<Rightarrow>
          (case getCachedData c (case cacheId opts of Some i \<Rightarrow> i | None \<Rightarrow> [])
                  requestId (headers opts) (options opts) of
             Inl e \<Rightarrow> (Uncaught e, s)
           | Inr None \<Rightarrow> attempts blockScoped cfg ctl opts requestId requestKey 0 answers s
           | Inr (Some cachedData) \<Rightarrow>
               if isStale cachedData = Some True
               then
                 (case getStaleWhileRevalidate opts of
                    None \<Rightarrow> attempts blockScoped cfg ctl opts requestId requestKey 0 answers s
                  | Some f \<Rightarrow>
                      let s1 = s\<lparr>trace := trace s @ [StaleNotified (entry_data cachedData)]\<rparr>;
                          s2 = (case f (entry_data cachedData) of
                                  Some e \<Rightarrow> s1\<lparr>trace := trace s1 @ [ConsoleError e]\<rparr>
                                | None \<Rightarrow> s1)
                      in attempts blockScoped cfg ctl opts requestId requestKey 0 answers s2)
               else (Resolved (DataOnly (entry_data cachedData)),
                     resolveRequest requestKey (DataOnly (entry_data cachedData)) s)))"

text \<open>
  \<open>fetchData\<close>, from the promise executor on, for the caller \<open>w\<close>: \<open>None\<close> when the
  call joined a group that was already there (the callback is not invoked), otherwise
  how the callback ended. Here the callback runs to its end before anything else
  happens; calls that arrive while it is suspended are a run of \<open>enqueue_all\<close> followed by
  \<open>callback\<close>.
\<close>

definition fetchData ::
    "(request_options \<Rightarrow> nat) \<Rightarrow> bool \<Rightarrow> bool \<Rightarrow> api_adapter_configuration \<Rightarrow> request_controller
      \<Rightarrow> nat \<Rightarrow> call_options \<Rightarrow> nat \<Rightarrow> transport_result list \<Rightarrow> adapter_state
      \<Rightarrow> outcome option \<times> adapter_state" where
  "fetchData hashIt hasFormData blockScoped cfg ctl now opts w answers s =
     (let requestId = hashIt (options opts) in
      case queueRequest hashIt hasFormData now (request_options.extend (options opts) \<lparr>waiter = w\<rparr>) s of
        (None, s1) \<Rightarrow> (None, s1)
      | (Some requestKey, s1) \<Rightarrow>
          (case callback blockScoped cfg ctl opts requestId requestKey answers s1 of
             (out, s2) \<Rightarrow> (Some out, s2)))"

section \<open>Initial values and sample inputs\<close>

text \<open>
  The state a new adapter starts in (nothing stored by \<open>StorageManager\<close>), the
  \<open>RequestController\<close> as \<open>getAPIAdapter\<close> creates it (no hook set), and the
  configuration it creates.
\<close>

definition initial_state :: adapter_state where
  "initial_state =
     \<lparr>requestQueue = Map.empty, pendingRequestCancelTokenSources = [],
      defaultRequestHeaders = Map.empty, storedRequestHeaders = None,
      eventsQueue_error = [], sourcesCreated = 0, trace = []\<rparr>"

definition no_hooks :: request_controller where
  "no_hooks =
     \<lparr>RequestController_rotateHeaders = None, RequestController_processResponse = None,
      RequestController_processResponseError = None, RequestController_shouldRetryRequest = None\<rparr>"

definition created_configuration :: api_adapter_configuration where
  "created_configuration = \<lparr>preProcessResponseErrorMessages = True, cache = None\<rparr>"

text \<open>The options of \<open>get(u, {})\<close> and of \<open>post(u, { data: fd })\<close> for a \<open>FormData\<close>.\<close>

definition get_request :: "string \<Rightarrow> call_options" where
  "get_request u =
     \<lparr>headers = Map.empty, label = None, processResponse = None, cacheId = None,
      onServerSuccess = None, getStaleWhileRevalidate = None,
      options = \<lparr>url = u, request_method = None, data = NoData, getRequestController = None,
                 axios_config = []\<rparr>\<rparr>"

definition upload_request :: "string \<Rightarrow> nat \<Rightarrow> call_options" where
  "upload_request u fd =
     \<lparr>headers = [''Content-Type'' \<mapsto> ''multipart/form-data''], label = None,
      processResponse = None, cacheId = None,
      onServerSuccess = None, getStaleWhileRevalidate = None,
      options = \<lparr>url = u, request_method = Some ''POST'', data = FormData fd, getRequestController = None,
                 axios_config = []\<rparr>\<rparr>"

definition queued :: "call_options \<Rightarrow> nat \<Rightarrow> queued_request_options" where
  "queued opts w = request_options.extend (options opts) \<lparr>waiter = w\<rparr>"

definition sample_response :: "nat \<Rightarrow> json \<Rightarrow> response" where
  "sample_response st d = \<lparr>r_data = d, r_status = st, r_headers = Map.empty\<rparr>"

definition sample_error :: "nat \<Rightarrow> string \<Rightarrow> axios_error" where
  "sample_error st m =
     \<lparr>e_response = Some (sample_response st (JObj [(''message'', JStr m)])),
      e_message = ''Request failed with status code''\<rparr>"

text \<open>A hash that tells requests apart by the length of their url: enough for examples.\<close>

definition sample_hash :: "request_options \<Rightarrow> nat" where
  "sample_hash ro = length (url ro)"

definition sample_cache :: "cache_entry option \<Rightarrow> api_request_cache" where
  "sample_cache e = \<lparr>getCachedData = (\<lambda>cid rid hs os. Inr e)\<rparr>"

definition cached_users_request :: call_options where
  "cached_users_request = (get_request ''/users'')\<lparr>cacheId := Some ''users''\<rparr>"

definition caching_configuration :: "cache_entry option \<Rightarrow> api_adapter_configuration" where
  "caching_configuration e = created_configuration\<lparr>cache := Some (sample_cache e)\<rparr>"

text \<open>The state in which the caller 1 has just been queued as the group 6 (by itself).\<close>

definition one_waiting :: "call_options \<Rightarrow> adapter_state" where
  "one_waiting opts = initial_state\<lparr>requestQueue := [6 \<mapsto> [queued opts 1]]\<rparr>"

text \<open>A stale entry, and a caller whose \<open>getStaleWhileRevalidate\<close> throws.\<close>

definition stale_entry :: cache_entry where
  "stale_entry = \<lparr>isStale = Some True, entry_data = JStr ''old''\<rparr>"

definition throwing_stale_request :: call_options where
  "throwing_stale_request =
     cached_users_request\<lparr>getStaleWhileRevalidate := Some (\<lambda>d. Some ''boom'')\<rparr>"

text \<open>A controller whose \<open>rotateHeaders\<close> hands out a new token, and a signed-in state.\<close>

definition rotating_controller :: request_controller where
  "rotating_controller =
     no_hooks\<lparr>RequestController_rotateHeaders :=
                Some (\<lambda>responseHeaders requestHeaders. Some [''Authorization'' \<mapsto> ''token-2''])\<rparr>"

definition signed_in_state :: adapter_state where
  "signed_in_state =
     initial_state\<lparr>defaultRequestHeaders := [''Authorization'' \<mapsto> ''token-1'', ''X-App'' \<mapsto> ''web'']\<rparr>"

text \<open>
  Controllers with one hook set: a \<open>shouldRetryRequest\<close> that always asks for a retry,
  and a \<open>processResponse\<close> that replaces the body.
\<close>

definition insisting_controller :: request_controller where
  "insisting_controller =
     no_hooks\<lparr>RequestController_shouldRetryRequest := Some (\<lambda>err numberOfTrials. True)\<rparr>"

definition unwrap :: "response \<Rightarrow> response" where
  "unwrap r = r\<lparr>r_data := JStr ''processed''\<rparr>"

definition processing_controller :: request_controller where
  "processing_controller = no_hooks\<lparr>RequestController_processResponse := Some unwrap\<rparr>"

text \<open>A fresh cache entry.\<close>

definition fresh_entry :: cache_entry where
  "fresh_entry = \<lparr>isStale = None, entry_data = JStr ''cached''\<rparr>"

text \<open>
  A state with three attempts in flight (sources 0, 1 and 2), the caller 1 waiting in
  the group 6.
\<close>

definition busy_state :: adapter_state where
  "busy_state =
     (one_waiting (get_request ''/users''))
       \<lparr>pendingRequestCancelTokenSources := [0, 1, 2], sourcesCreated := 3\<rparr>"

text \<open>The created configuration with the pre-processing of error messages switched off.\<close>

definition plain_errors_configuration :: api_adapter_configuration where
  "plain_errors_configuration = created_configuration\<lparr>preProcessResponseErrorMessages := False\<rparr>"

section \<open>Deduplication\<close>

lemma enqueue_all_Cons:
  "fst (enqueue_all hashIt fd (c # cs) s) =
     fst (queueRequest hashIt fd (fst c) (snd c) s) #
     fst (enqueue_all hashIt fd cs (snd (queueRequest hashIt fd (fst c) (snd c) s)))"
  "snd (enqueue_all hashIt fd (c # cs) s) =
     snd (enqueue_all hashIt fd cs (snd (queueRequest hashIt fd (fst c) (snd c) s)))"
  by (simp_all split: prod.splits)

lemma enqueue_all_joined:
  assumes "\<forall>c \<in> set cs. hashIt (hashableRequestOptions fd (fst c) (snd c)) = k"
    and "requestQueue s k = Some g"
  shows "fst (enqueue_all hashIt fd cs s) = replicate (length cs) None
       \<and> requestQueue (snd (enqueue_all hashIt fd cs s)) k = Some (g @ map snd cs)
       \<and> trace (snd (enqueue_all hashIt fd cs s)) = trace s"
  using assms
proof (induction cs arbitrary: s g)
  case Nil
  then show ?case by simp
next
  case (Cons c cs)
  let ?s1 = "s\<lparr>requestQueue := (requestQueue s)(k \<mapsto> g @ [snd c])\<rparr>"
  have q: "queueRequest hashIt fd (fst c) (snd c) s = (None, ?s1)"
    using Cons.prems by (simp add: queueRequest_def)
  have "requestQueue ?s1 k = Some (g @ [snd c])" by simp
  with Cons.IH [of ?s1 "g @ [snd c]"] Cons.prems(1)
  have ih: "fst (enqueue_all hashIt fd cs ?s1) = replicate (length cs) None
       \<and> requestQueue (snd (enqueue_all hashIt fd cs ?s1)) k = Some ((g @ [snd c]) @ map snd cs)
       \<and> trace (snd (enqueue_all hashIt fd cs ?s1)) = trace ?s1"
    by simp
  show ?case using q ih by (cases "enqueue_all hashIt fd cs ?s1") auto
qed

lemma resolveRequest_group:
  assumes "requestQueue s k = Some g" and "g \<noteq> []"
  shows "trace (resolveRequest k p s) = trace s @ map (\<lambda>q. Resolve (waiter q) p) g"
    and "requestQueue (resolveRequest k p s) k = None"
  using assms by (simp_all add: resolveRequest_def dequeueRequest_def)

lemma rejectRequest_group:
  assumes "requestQueue s k = Some g" and "g \<noteq> []"
  shows "trace (rejectRequest k e s) = trace s @ map (\<lambda>q. Reject (waiter q) e) g"
    and "requestQueue (rejectRequest k e s) k = None"
  using assms by (simp_all add: rejectRequest_def dequeueRequest_def)


lemma queueRequest_new:
  assumes "hashIt (hashableRequestOptions fd now q) = k" and "requestQueue s k = None"
  shows "queueRequest hashIt fd now q s = (Some k, s\<lparr>requestQueue := (requestQueue s)(k \<mapsto> [q])\<rparr>)"
  using assms by (simp add: queueRequest_def)


section \<open>Settling a group leaves the rest of the state alone\<close>

lemma transport_calls_append [simp]:
  "transport_calls (xs @ ys) = transport_calls xs + transport_calls ys"
  by (simp add: transport_calls_def)

lemma transport_calls_Nil [simp]: "transport_calls [] = 0"
  by (simp add: transport_calls_def)

lemma transport_calls_Resolve [simp]: "transport_calls (map (\<lambda>q. Resolve (f q) p) g) = 0"
  by (induction g) (simp_all add: transport_calls_def)

lemma transport_calls_Reject [simp]: "transport_calls (map (\<lambda>q. Reject (f q) e) g) = 0"
  by (induction g) (simp_all add: transport_calls_def)

lemma transport_calls_ErrorEvent [simp]: "transport_calls (map (\<lambda>l. ErrorEvent l e) ls) = 0"
  by (induction ls) (simp_all add: transport_calls_def)

lemma transport_calls_Cancel [simp]: "transport_calls (map Cancel xs) = 0"
  by (induction xs) (simp_all add: transport_calls_def)

lemma resolveRequest_frame:
  "transport_calls (trace (resolveRequest k p s)) = transport_calls (trace s)"
  "pendingRequestCancelTokenSources (resolveRequest k p s) = pendingRequestCancelTokenSources s"
  "defaultRequestHeaders (resolveRequest k p s) = defaultRequestHeaders s"
  "storedRequestHeaders (resolveRequest k p s) = storedRequestHeaders s"
  "\<exists>evs. trace (resolveRequest k p s) = trace s @ evs"
  by (simp_all add: resolveRequest_def dequeueRequest_def split: option.splits)

lemma rejectRequest_frame:
  "transport_calls (trace (rejectRequest k e s)) = transport_calls (trace s)"
  "pendingRequestCancelTokenSources (rejectRequest k e s) = pendingRequestCancelTokenSources s"
  "defaultRequestHeaders (rejectRequest k e s) = defaultRequestHeaders s"
  "storedRequestHeaders (rejectRequest k e s) = storedRequestHeaders s"
  "\<exists>evs. trace (rejectRequest k e s) = trace s @ evs"
  by (simp_all add: rejectRequest_def dequeueRequest_def split: option.splits)

lemma resolveRequest_trace:
  "trace (resolveRequest k p s) =
     trace s @ (case requestQueue s k of
                  None \<Rightarrow> []
                | Some g \<Rightarrow> map (\<lambda>q. Resolve (waiter q) p) g)"
  by (simp add: resolveRequest_def dequeueRequest_def split: option.splits)

lemma rejectRequest_trace:
  "trace (rejectRequest k e s) =
     trace s @ (case requestQueue s k of
                  None \<Rightarrow> []
                | Some g \<Rightarrow> map (\<lambda>q. Reject (waiter q) e) g)"
  by (simp add: rejectRequest_def dequeueRequest_def split: option.splits)

section \<open>A fresh cache entry\<close>

lemma callback_fresh_hit:
  assumes "cacheId opts = Some cid" and "cid \<noteq> []"
    and "is_get (request_method (options opts))"
    and "cache cfg = Some c"
    and "getCachedData c cid requestId (headers opts) (options opts) = Inr (Some e)"
    and "isStale e \<noteq> Some True"
  shows "callback b cfg ctl opts requestId requestKey answers s =
           (Resolved (DataOnly (entry_data e)),
            resolveRequest requestKey (DataOnly (entry_data e)) s)"
  using assms by (simp add: callback_def truthy_string_def)

text \<open>
  C4. A request that is GET-equivalent (method absent, empty, \<open>get\<close> or \<open>GET\<close>) and
  carries a cacheId (a non-empty one: the empty string is falsy), with a cache configured
  whose \<open>getCachedData\<close> gives an entry that is not stale: the callback calls
  \<open>resolve({ data })\<close> with the cached data and returns; the trace gains no transport
  call, and every caller queued in the group receives that payload.
\<close>

theorem C4_fresh_cache_hit_no_transport:
  assumes "cacheId opts = Some cid" and "cid \<noteq> []"
    and "is_get (request_method (options opts))"
    and "cache cfg = Some c"
    and "getCachedData c cid requestId (headers opts) (options opts) = Inr (Some e)"
    and "isStale e \<noteq> Some True"
  shows "fst (callback b cfg ctl opts requestId requestKey answers s)
           = Resolved (DataOnly (entry_data e))
       \<and> snd (callback b cfg ctl opts requestId requestKey answers s)
           = resolveRequest requestKey (DataOnly (entry_data e)) s
       \<and> transport_calls (trace (snd (callback b cfg ctl opts requestId requestKey answers s)))
           = transport_calls (trace s)
       \<and> (\<forall>g. requestQueue s requestKey = Some g \<and> g \<noteq> [] \<longrightarrow>
             trace (snd (callback b cfg ctl opts requestId requestKey answers s))
               = trace s @ map (\<lambda>q. Resolve (waiter q) (DataOnly (entry_data e))) g)"
proof -
  have c: "callback b cfg ctl opts requestId requestKey answers s =
             (Resolved (DataOnly (entry_data e)),
              resolveRequest requestKey (DataOnly (entry_data e)) s)"
    using assms by (rule callback_fresh_hit)
  show ?thesis
    unfolding c by (simp add: resolveRequest_frame(1) resolveRequest_group(1))
qed

theorem C4_fresh_cache_hit_no_transport_witness:
  "fst (callback False (caching_configuration (Some \<lparr>isStale = None, entry_data = JStr ''cached''\<rparr>))
          no_hooks cached_users_request 6 6 [Fulfilled (sample_response 200 JNull)]
          (one_waiting cached_users_request))
     = Resolved (DataOnly (JStr ''cached''))
   \<and> trace (snd (callback False (caching_configuration (Some \<lparr>isStale = None, entry_data = JStr ''cached''\<rparr>))
          no_hooks cached_users_request 6 6 [Fulfilled (sample_response 200 JNull)]
          (one_waiting cached_users_request)))
     = [Resolve 1 (DataOnly (JStr ''cached''))]"
proof -
  let ?e = "\<lparr>isStale = None, entry_data = JStr ''cached''\<rparr>"
  have h1: "cacheId cached_users_request = Some ''users''"
    by (simp add: cached_users_request_def get_request_def)
  have h2: "''users'' \<noteq> []" by simp
  have h3: "is_get (request_method (options cached_users_request))"
    by (simp add: cached_users_request_def get_request_def is_get_def truthy_string_def)
  have h4: "cache (caching_configuration (Some ?e)) = Some (sample_cache (Some ?e))"
    by (simp add: caching_configuration_def created_configuration_def)
  have h5: "getCachedData (sample_cache (Some ?e)) ''users'' 6 (headers cached_users_request)
              (options cached_users_request) = Inr (Some ?e)"
    by (simp add: sample_cache_def)
  have h6: "isStale ?e \<noteq> Some True" by simp
  have q: "requestQueue (one_waiting cached_users_request) 6 = Some [queued cached_users_request 1]"
    by (simp add: one_waiting_def)
  have ne: "[queued cached_users_request 1] \<noteq> []" by simp
  note th = C4_fresh_cache_hit_no_transport [OF h1 h2 h3 h4 h5 h6, of False no_hooks 6
      "[Fulfilled (sample_response 200 JNull)]" "one_waiting cached_users_request"]
  have a: "fst (callback False (caching_configuration (Some ?e)) no_hooks cached_users_request 6 6
             [Fulfilled (sample_response 200 JNull)] (one_waiting cached_users_request))
           = Resolved (DataOnly (JStr ''cached''))"
    using th by simp
  have b: "trace (snd (callback False (caching_configuration (Some ?e)) no_hooks
             cached_users_request 6 6 [Fulfilled (sample_response 200 JNull)]
             (one_waiting cached_users_request)))
           = trace (one_waiting cached_users_request) @
             map (\<lambda>q. Resolve (waiter q) (DataOnly (entry_data ?e))) [queued cached_users_request 1]"
    using th q ne by blast
  have c: "trace (one_waiting cached_users_request) = []"
    by (simp add: one_waiting_def initial_state_def)
  have d: "waiter (queued cached_users_request 1) = 1"
    by (simp add: queued_def request_options.defs)
  show ?thesis using a b c d by simp
qed

section \<open>One attempt\<close>

lemma start_attempt_frame:
  "fst (start_attempt opts n s) = sourcesCreated s"
  "defaultRequestHeaders (snd (start_attempt opts n s)) = defaultRequestHeaders s"
  "storedRequestHeaders (snd (start_attempt opts n s)) = storedRequestHeaders s"
  "pendingRequestCancelTokenSources (snd (start_attempt opts n s))
     = pendingRequestCancelTokenSources s @ [sourcesCreated s]"
  "transport_calls (trace (snd (start_attempt opts n s))) = Suc (transport_calls (trace s))"
  "\<exists>evs. trace (snd (start_attempt opts n s)) = trace s @ evs"
  by (simp_all add: start_attempt_def Let_def transport_calls_def split: option.splits)

lemma catch_handler_frame:
  "transport_calls (trace (snd (catch_handler b cfg ctl opts k src n err s)))
     = transport_calls (trace s)"
  "defaultRequestHeaders (snd (catch_handler b cfg ctl opts k src n err s))
     = defaultRequestHeaders s"
  "\<exists>evs. trace (snd (catch_handler b cfg ctl opts k src n err s)) = trace s @ evs"
  by (simp_all add: catch_handler_def Let_def rejectRequest_frame(1,3) rejectRequest_trace
      split: option.splits prod.splits)

lemma catch_handler_never_resolves:
  "fst (catch_handler b cfg ctl opts k src n err s) \<noteq> Done (Resolved p)"
  by (simp add: catch_handler_def Let_def split: option.splits prod.splits)

lemma rotate_default_headers_frame:
  "trace (rotate_default_headers ctl r s) = trace s"
  "pendingRequestCancelTokenSources (rotate_default_headers ctl r s)
     = pendingRequestCancelTokenSources s"
  "defaultRequestHeaders (rotate_default_headers ctl r s) =
     (case RequestController_rotateHeaders ctl of
        None \<Rightarrow> defaultRequestHeaders s
      | Some f \<Rightarrow>
          (case f (r_headers r) (defaultRequestHeaders s) of
             None \<Rightarrow> defaultRequestHeaders s
           | Some h \<Rightarrow> defaultRequestHeaders s ++ h))"
  "RequestController_rotateHeaders ctl \<noteq> None \<Longrightarrow>
     storedRequestHeaders (rotate_default_headers ctl r s)
       = Some (defaultRequestHeaders (rotate_default_headers ctl r s))"
  by (auto simp add: rotate_default_headers_def patchDefaultRequestHeaders_def Let_def
      split: option.splits)

lemma cache_response_data_frame:
  "transport_calls (trace (cache_response_data cfg opts rid r s)) = transport_calls (trace s)"
  "\<exists>evs. trace (cache_response_data cfg opts rid r s) = trace s @ evs"
  "pendingRequestCancelTokenSources (cache_response_data cfg opts rid r s)
     = pendingRequestCancelTokenSources s"
  "defaultRequestHeaders (cache_response_data cfg opts rid r s) = defaultRequestHeaders s"
  "storedRequestHeaders (cache_response_data cfg opts rid r s) = storedRequestHeaders s"
  by (simp_all add: cache_response_data_def transport_calls_def split: option.splits)

lemma resolve_with_response_frame:
  "transport_calls (trace (snd (resolve_with_response opts k r s))) = transport_calls (trace s)"
  "\<exists>evs. trace (snd (resolve_with_response opts k r s)) = trace s @ evs"
  "pendingRequestCancelTokenSources (snd (resolve_with_response opts k r s))
     = pendingRequestCancelTokenSources s"
  "defaultRequestHeaders (snd (resolve_with_response opts k r s)) = defaultRequestHeaders s"
  "storedRequestHeaders (snd (resolve_with_response opts k r s)) = storedRequestHeaders s"
  by (simp_all add: resolve_with_response_def Let_def resolveRequest_frame(1,2,3,4)
      resolveRequest_trace transport_calls_def split: option.splits)

lemma resolve_with_response_outcome:
  "fst (resolve_with_response opts k r s) = Resolved p \<Longrightarrow> p = FullResponse r"
  "\<forall>f. onServerSuccess opts = Some f \<longrightarrow> f r = None \<Longrightarrow>
     fst (resolve_with_response opts k r s) = Resolved (FullResponse r)"
  by (auto simp add: resolve_with_response_def Let_def split: option.splits)

lemma on_response_frame:
  "transport_calls (trace (snd (on_response cfg ctl opts rid k src r s)))
     = transport_calls (trace s)"
  "\<exists>evs. trace (snd (on_response cfg ctl opts rid k src r s)) = trace s @ evs"
  "fst (on_response cfg ctl opts rid k src r s) = Resolved p \<Longrightarrow> p = FullResponse r"
proof -
  let ?s1 = "s\<lparr>pendingRequestCancelTokenSources :=
                 splice_indexOf (pendingRequestCancelTokenSources s) src\<rparr>"
  let ?s3 = "cache_response_data cfg opts rid r (rotate_default_headers ctl r ?s1)"
  have o: "on_response cfg ctl opts rid k src r s = resolve_with_response opts k r ?s3"
    by (simp add: on_response_def Let_def)
  have t: "transport_calls (trace ?s3) = transport_calls (trace s)"
    by (simp add: cache_response_data_frame(1) rotate_default_headers_frame(1))
  show "transport_calls (trace (snd (on_response cfg ctl opts rid k src r s)))
          = transport_calls (trace s)"
    by (simp add: o resolve_with_response_frame(1) t)
  obtain e1 where e1: "trace ?s3 = trace s @ e1"
    using cache_response_data_frame(2) [of cfg opts rid r "rotate_default_headers ctl r ?s1"]
    by (auto simp add: rotate_default_headers_frame(1))
  obtain e2 where e2: "trace (snd (resolve_with_response opts k r ?s3)) = trace ?s3 @ e2"
    using resolve_with_response_frame(2) by blast
  show "\<exists>evs. trace (snd (on_response cfg ctl opts rid k src r s)) = trace s @ evs"
    using e1 e2 by (simp add: o)
  show "fst (on_response cfg ctl opts rid k src r s) = Resolved p \<Longrightarrow> p = FullResponse r"
    by (simp add: o resolve_with_response_outcome(1))
qed

lemma on_response_headers:
  "defaultRequestHeaders (snd (on_response cfg ctl opts rid k src r s)) =
     (case RequestController_rotateHeaders ctl of
        None \<Rightarrow> defaultRequestHeaders s
      | Some f \<Rightarrow>
          (case f (r_headers r) (defaultRequestHeaders s) of
             None \<Rightarrow> defaultRequestHeaders s
           | Some h \<Rightarrow> defaultRequestHeaders s ++ h))"
  by (simp add: on_response_def Let_def resolve_with_response_frame(4)
      cache_response_data_frame(4) rotate_default_headers_frame(3) split: option.splits)

lemma on_response_stored:
  "RequestController_rotateHeaders ctl \<noteq> None \<Longrightarrow>
     storedRequestHeaders (snd (on_response cfg ctl opts rid k src r s))
       = Some (defaultRequestHeaders (snd (on_response cfg ctl opts rid k src r s)))"
  by (simp add: on_response_def Let_def resolve_with_response_frame(4,5)
      cache_response_data_frame(4,5) rotate_default_headers_frame(4))

lemma on_response_registry:
  "pendingRequestCancelTokenSources (snd (on_response cfg ctl opts rid k src r s))
     = splice_indexOf (pendingRequestCancelTokenSources s) src"
  by (simp add: on_response_def Let_def resolve_with_response_frame(3)
      cache_response_data_frame(3) rotate_default_headers_frame(2))

lemma on_response_resolves:
  assumes "\<forall>f. onServerSuccess opts = Some f \<longrightarrow> f r = None"
  shows "fst (on_response cfg ctl opts rid k src r s) = Resolved (FullResponse r)"
  using assms by (simp add: on_response_def Let_def resolve_with_response_outcome(2))

section \<open>The attempts of one group\<close>

lemma attempts_Fulfilled:
  "attempts b cfg ctl opts rid k n (Fulfilled r # answers) s =
     on_response cfg ctl opts rid k (sourcesCreated s) (then_handler ctl opts r)
       (snd (start_attempt opts n s))"
  using start_attempt_frame(1) [of opts n s]
  by (cases "start_attempt opts n s") simp

lemma attempts_Failed:
  "attempts b cfg ctl opts rid k n (Failed err # answers) s =
     (case catch_handler b cfg ctl opts k (sourcesCreated s) n err (snd (start_attempt opts n s)) of
        (Retry, s2) \<Rightarrow> attempts b cfg ctl opts rid k (Suc n) answers s2
      | (Done out, s2) \<Rightarrow> (out, s2))"
  using start_attempt_frame(1) [of opts n s]
  by (cases "start_attempt opts n s") simp

lemma attempts_transport_calls:
  "Suc (transport_calls (trace s))
     \<le> transport_calls (trace (snd (attempts b cfg ctl opts rid k n answers s)))"
proof (induction answers arbitrary: n s)
  case Nil
  show ?case by (simp add: start_attempt_frame(5))
next
  case (Cons a answers)
  show ?case
  proof (cases a)
    case (Fulfilled r)
    then show ?thesis
      by (simp add: attempts_Fulfilled on_response_frame(1) start_attempt_frame(5)
          del: attempts.simps)
  next
    case (Failed err)
    obtain src s1 where st: "start_attempt opts n s = (src, s1)" by (cases "start_attempt opts n s")
    obtain stp s2 where ch: "catch_handler b cfg ctl opts k src n err s1 = (stp, s2)"
      by (cases "catch_handler b cfg ctl opts k src n err s1")
    have t1: "transport_calls (trace s1) = Suc (transport_calls (trace s))"
      using start_attempt_frame(5) [of opts n s] st by simp
    have t2: "transport_calls (trace s2) = transport_calls (trace s1)"
      using catch_handler_frame(1) [of b cfg ctl opts k src n err s1] ch by simp
    show ?thesis
    proof (cases stp)
      case Retry
      with Cons.IH [where s = s2 and n = "Suc n"] t1 t2 st ch Failed show ?thesis by simp
    next
      case (Done out)
      with t1 t2 st ch Failed show ?thesis by simp
    qed
  qed
qed

lemma attempts_trace_extends:
  "\<exists>evs. trace (snd (attempts b cfg ctl opts rid k n answers s)) = trace s @ evs"
proof (induction answers arbitrary: n s)
  case Nil
  show ?case using start_attempt_frame(6) [of opts n s] by simp
next
  case (Cons a answers)
  obtain src s1 where st: "start_attempt opts n s = (src, s1)" by (cases "start_attempt opts n s")
  from start_attempt_frame(6) [of opts n s] st
  obtain e1 where e1: "trace s1 = trace s @ e1" by auto
  show ?case
  proof (cases a)
    case (Fulfilled r)
    from on_response_frame(2) [of cfg ctl opts rid k src "then_handler ctl opts r" s1]
    obtain e2 where "trace (snd (on_response cfg ctl opts rid k src (then_handler ctl opts r) s1))
                       = trace s1 @ e2" by auto
    with e1 st Fulfilled show ?thesis by simp
  next
    case (Failed err)
    obtain stp s2 where ch: "catch_handler b cfg ctl opts k src n err s1 = (stp, s2)"
      by (cases "catch_handler b cfg ctl opts k src n err s1")
    from catch_handler_frame(3) [of b cfg ctl opts k src n err s1] ch
    obtain e2 where e2: "trace s2 = trace s1 @ e2" by auto
    show ?thesis
    proof (cases stp)
      case Retry
      from Cons.IH [where s = s2 and n = "Suc n"]
      obtain e3 where "trace (snd (attempts b cfg ctl opts rid k (Suc n) answers s2)) = trace s2 @ e3"
        by auto
      with e1 e2 st ch Failed Retry show ?thesis by simp
    next
      case (Done out)
      with e1 e2 st ch Failed show ?thesis by simp
    qed
  qed
qed

lemma attempts_resolved_from_transport:
  assumes "fst (attempts b cfg ctl opts rid k n answers s) = Resolved p"
  shows "\<exists>r. Fulfilled r \<in> set answers \<and> p = FullResponse (then_handler ctl opts r)"
  using assms
proof (induction answers arbitrary: n s)
  case Nil
  then show ?case by simp
next
  case (Cons a answers)
  obtain src s1 where st: "start_attempt opts n s = (src, s1)" by (cases "start_attempt opts n s")
  show ?case
  proof (cases a)
    case (Fulfilled r)
    with Cons.prems st
    have "fst (on_response cfg ctl opts rid k src (then_handler ctl opts r) s1) = Resolved p"
      by simp
    then have "p = FullResponse (then_handler ctl opts r)" by (rule on_response_frame(3))
    with Fulfilled show ?thesis by auto
  next
    case (Failed err)
    obtain stp s2 where ch: "catch_handler b cfg ctl opts k src n err s1 = (stp, s2)"
      by (cases "catch_handler b cfg ctl opts k src n err s1")
    show ?thesis
    proof (cases stp)
      case Retry
      with Cons.prems st ch Failed
      have "fst (attempts b cfg ctl opts rid k (Suc n) answers s2) = Resolved p" by simp
      from Cons.IH [OF this] show ?thesis by auto
    next
      case (Done out)
      with Cons.prems st ch Failed have "out = Resolved p" by simp
      with Done ch catch_handler_never_resolves [of b cfg ctl opts k src n err s1 p]
      show ?thesis by simp
    qed
  qed
qed

section \<open>A settlement reaches every caller of the group\<close>

lemma start_attempt_queue:
  "requestQueue (snd (start_attempt opts n s)) = requestQueue s"
  by (simp add: start_attempt_def Let_def split: option.splits)

lemma catch_handler_retry_queue:
  assumes "fst (catch_handler b cfg ctl opts k src n err s) = Retry"
  shows "requestQueue (snd (catch_handler b cfg ctl opts k src n err s)) = requestQueue s"
  using assms
  by (auto simp add: catch_handler_def Let_def split: option.splits prod.splits if_splits)

lemma catch_handler_rejected_group:
  assumes "requestQueue s k = Some g" and "g \<noteq> []"
    and "fst (catch_handler b cfg ctl opts k src n err s) = Done (Rejected e)"
  shows "(\<exists>pre. trace (snd (catch_handler b cfg ctl opts k src n err s))
                  = pre @ map (\<lambda>q. Reject (waiter q) e) g)
       \<and> requestQueue (snd (catch_handler b cfg ctl opts k src n err s)) k = None"
  using assms
  by (auto simp add: catch_handler_def Let_def rejectRequest_group
      split: option.splits prod.splits if_splits)

lemma on_response_resolved_group:
  assumes "requestQueue s k = Some g" and "g \<noteq> []"
    and "fst (on_response cfg ctl opts rid k src r s) = Resolved p"
  shows "(\<exists>pre. trace (snd (on_response cfg ctl opts rid k src r s))
                  = pre @ map (\<lambda>q. Resolve (waiter q) p) g)
       \<and> requestQueue (snd (on_response cfg ctl opts rid k src r s)) k = None"
proof -
  let ?s3 = "cache_response_data cfg opts rid r
               (rotate_default_headers ctl r
                 (s\<lparr>pendingRequestCancelTokenSources :=
                      splice_indexOf (pendingRequestCancelTokenSources s) src\<rparr>))"
  have o: "on_response cfg ctl opts rid k src r s = resolve_with_response opts k r ?s3"
    by (simp add: on_response_def Let_def)
  have q3: "requestQueue ?s3 k = Some g"
    using assms(1)
    by (simp add: cache_response_data_def rotate_default_headers_def
        patchDefaultRequestHeaders_def Let_def split: option.splits)
  show ?thesis
    using assms(2,3) q3 unfolding o
    by (auto simp add: resolve_with_response_def Let_def resolveRequest_group
        split: option.splits)
qed

lemma attempts_settles_group:
  assumes "requestQueue s k = Some g" and "g \<noteq> []"
  shows "(fst (attempts b cfg ctl opts rid k n answers s) = Resolved p \<longrightarrow>
            (\<exists>pre. trace (snd (attempts b cfg ctl opts rid k n answers s))
                     = pre @ map (\<lambda>q. Resolve (waiter q) p) g)
            \<and> requestQueue (snd (attempts b cfg ctl opts rid k n answers s)) k = None)
       \<and> (fst (attempts b cfg ctl opts rid k n answers s) = Rejected e \<longrightarrow>
            (\<exists>pre. trace (snd (attempts b cfg ctl opts rid k n answers s))
                     = pre @ map (\<lambda>q. Reject (waiter q) e) g)
            \<and> requestQueue (snd (attempts b cfg ctl opts rid k n answers s)) k = None)"
  using assms(1)
proof (induction answers arbitrary: n s)
  case Nil
  show ?case by simp
next
  case (Cons a answers)
  let ?s1 = "snd (start_attempt opts n s)"
  have q1: "requestQueue ?s1 k = Some g"
    using Cons.prems by (simp add: start_attempt_queue)
  show ?case
  proof (cases a)
    case (Fulfilled r)
    have run: "attempts b cfg ctl opts rid k n (a # answers) s =
                 on_response cfg ctl opts rid k (sourcesCreated s) (then_handler ctl opts r) ?s1"
      using Fulfilled by (simp add: attempts_Fulfilled del: attempts.simps)
    have "fst (on_response cfg ctl opts rid k (sourcesCreated s) (then_handler ctl opts r) ?s1)
            \<noteq> Rejected e"
      by (simp add: on_response_def resolve_with_response_def Let_def split: option.splits)
    then show ?thesis
      unfolding run using on_response_resolved_group [OF q1 assms(2)] by blast
  next
    case (Failed err)
    let ?ch = "catch_handler b cfg ctl opts k (sourcesCreated s) n err ?s1"
    show ?thesis
    proof (cases "fst ?ch")
      case Retry
      then have q2: "requestQueue (snd ?ch) k = Some g"
        using q1 by (simp add: catch_handler_retry_queue)
      have run: "attempts b cfg ctl opts rid k n (a # answers) s =
                   attempts b cfg ctl opts rid k (Suc n) answers (snd ?ch)"
        using Failed Retry
        by (cases ?ch) (simp add: attempts_Failed del: attempts.simps)
      show ?thesis unfolding run using Cons.IH [OF q2] .
    next
      case (Done out)
      have run: "attempts b cfg ctl opts rid k n (a # answers) s = (out, snd ?ch)"
        using Failed Done
        by (cases ?ch) (simp add: attempts_Failed del: attempts.simps)
      have nres: "out \<noteq> Resolved p"
        using Done catch_handler_never_resolves [of b cfg ctl opts k "sourcesCreated s" n err ?s1 p]
        by auto
      show ?thesis
        unfolding run using nres Done catch_handler_rejected_group [OF q1 assms(2), of b cfg ctl opts
            "sourcesCreated s" n err e]
        by auto
    qed
  qed
qed

lemma callback_cases:
  "(\<exists>evs. callback b cfg ctl opts rid k answers s
            = attempts b cfg ctl opts rid k 0 answers (s\<lparr>trace := trace s @ evs\<rparr>))
   \<or> (\<exists>d. callback b cfg ctl opts rid k answers s
            = (Resolved (DataOnly d), resolveRequest k (DataOnly d) s))
   \<or> (\<exists>e. callback b cfg ctl opts rid k answers s = (Uncaught e, s))"
proof -
  have same: "attempts b cfg ctl opts rid k 0 answers s
                = attempts b cfg ctl opts rid k 0 answers (s\<lparr>trace := trace s @ []\<rparr>)"
    by simp
  show ?thesis
    unfolding callback_def Let_def
    by (auto split: option.splits sum.splits simp del: attempts.simps append_Nil2
        intro: same exI [of _ "[]"])
qed

lemma callback_settles_group:
  assumes "requestQueue s k = Some g" and "g \<noteq> []"
  shows "(fst (callback b cfg ctl opts rid k answers s) = Resolved p \<longrightarrow>
            (\<exists>pre. trace (snd (callback b cfg ctl opts rid k answers s))
                     = pre @ map (\<lambda>q. Resolve (waiter q) p) g)
            \<and> requestQueue (snd (callback b cfg ctl opts rid k answers s)) k = None)
       \<and> (fst (callback b cfg ctl opts rid k answers s) = Rejected e \<longrightarrow>
            (\<exists>pre. trace (snd (callback b cfg ctl opts rid k answers s))
                     = pre @ map (\<lambda>q. Reject (waiter q) e) g)
            \<and> requestQueue (snd (callback b cfg ctl opts rid k answers s)) k = None)"
proof -
  consider (run) evs where "callback b cfg ctl opts rid k answers s
            = attempts b cfg ctl opts rid k 0 answers (s\<lparr>trace := trace s @ evs\<rparr>)"
    | (hit) d where "callback b cfg ctl opts rid k answers s
            = (Resolved (DataOnly d), resolveRequest k (DataOnly d) s)"
    | (thrown) x where "callback b cfg ctl opts rid k answers s = (Uncaught x, s)"
    using callback_cases [of b cfg ctl opts rid k answers s] by blast
  then show ?thesis
  proof cases
    case run
    have q: "requestQueue (s\<lparr>trace := trace s @ evs\<rparr>) k = Some g" using assms(1) by simp
    show ?thesis unfolding run using attempts_settles_group [OF q assms(2)] .
  next
    case hit
    show ?thesis unfolding hit using resolveRequest_group [OF assms] by auto
  next
    case thrown
    show ?thesis unfolding thrown by simp
  qed
qed

section \<open>What the callers' promises are settled with\<close>

lemma settlements_append [simp]: "settlements (xs @ ys) = settlements xs @ settlements ys"
  by (simp add: settlements_def)

lemma settlements_Nil [simp]: "settlements [] = []"
  by (simp add: settlements_def)

lemma settlements_Resolve [simp]:
  "settlements (map (\<lambda>q. Resolve (f q) p) g) = map (\<lambda>q. Resolve (f q) p) g"
  by (induction g) (simp_all add: settlements_def)

lemma settlements_Reject [simp]:
  "settlements (map (\<lambda>q. Reject (f q) x) g) = map (\<lambda>q. Reject (f q) x) g"
  by (induction g) (simp_all add: settlements_def)

lemma settlements_ErrorEvent [simp]: "settlements (map (\<lambda>l. ErrorEvent l e) ls) = []"
  by (induction ls) (simp_all add: settlements_def)

lemma settlements_Cancel [simp]: "settlements (map Cancel xs) = []"
  by (induction xs) (simp_all add: settlements_def)

lemma settlements_Cons:
  "settlements (e # es) = (if is_settlement e then e # settlements es else settlements es)"
  by (simp add: settlements_def)

lemma settlement_of_unsettled [simp]:
  "settlement_of (Uncaught e) w = []" "settlement_of InFlight w = []" "settlement_of out None = []"
  by (simp_all add: settlement_of_def split: option.splits)

lemma settlement_of_group:
  "settlement_of (Resolved p) (Some g) = map (\<lambda>q. Resolve (waiter q) p) g"
  "settlement_of (Rejected x) (Some g) = map (\<lambda>q. Reject (waiter q) x) g"
  by (simp_all add: settlement_of_def)

lemma resolveRequest_settlements:
  "settlements (trace (resolveRequest k p s))
     = settlements (trace s) @ settlement_of (Resolved p) (requestQueue s k)"
  by (simp add: resolveRequest_trace settlement_of_def split: option.splits)

lemma rejectRequest_settlements:
  "settlements (trace (rejectRequest k x s))
     = settlements (trace s) @ settlement_of (Rejected x) (requestQueue s k)"
  by (simp add: rejectRequest_trace settlement_of_def split: option.splits)

lemma start_attempt_settlements:
  "settlements (trace (snd (start_attempt opts n s))) = settlements (trace s)"
  by (simp add: start_attempt_def Let_def settlements_Cons split: option.splits)

lemma catch_handler_settlements:
  "settlements (trace (snd (catch_handler b cfg ctl opts k src n err s)))
     = settlements (trace s) @
       (case fst (catch_handler b cfg ctl opts k src n err s) of
          Retry \<Rightarrow> []
        | Done out \<Rightarrow> settlement_of out (requestQueue s k))"
  by (simp add: catch_handler_def Let_def rejectRequest_settlements
      split: option.splits prod.splits)

lemma rotate_default_headers_queue:
  "requestQueue (rotate_default_headers ctl r s) = requestQueue s"
  by (simp add: rotate_default_headers_def patchDefaultRequestHeaders_def Let_def
      split: option.splits)

lemma cache_response_data_queue:
  "requestQueue (cache_response_data cfg opts rid r s) = requestQueue s"
  "settlements (trace (cache_response_data cfg opts rid r s)) = settlements (trace s)"
  by (simp_all add: cache_response_data_def settlements_Cons split: option.splits)

lemma resolve_with_response_settlements:
  "settlements (trace (snd (resolve_with_response opts k r s)))
     = settlements (trace s) @ settlement_of (fst (resolve_with_response opts k r s)) (requestQueue s k)"
  by (simp add: resolve_with_response_def Let_def resolveRequest_settlements settlements_Cons
      split: option.splits)

lemma on_response_settlements:
  "settlements (trace (snd (on_response cfg ctl opts rid k src r s)))
     = settlements (trace s) @ settlement_of (fst (on_response cfg ctl opts rid k src r s)) (requestQueue s k)"
  by (simp add: on_response_def Let_def resolve_with_response_settlements
      cache_response_data_queue rotate_default_headers_queue rotate_default_headers_frame(1))

lemma attempts_settlements:
  "settlements (trace (snd (attempts b cfg ctl opts rid k n answers s)))
     = settlements (trace s) @ settlement_of (fst (attempts b cfg ctl opts rid k n answers s)) (requestQueue s k)"
proof (induction answers arbitrary: n s)
  case Nil
  show ?case by (simp add: start_attempt_settlements)
next
  case (Cons a answers)
  let ?s1 = "snd (start_attempt opts n s)"
  have q1: "requestQueue ?s1 = requestQueue s" by (rule start_attempt_queue)
  have t1: "settlements (trace ?s1) = settlements (trace s)" by (rule start_attempt_settlements)
  show ?case
  proof (cases a)
    case (Fulfilled r)
    show ?thesis
      unfolding Fulfilled
      by (simp add: attempts_Fulfilled on_response_settlements q1 t1 del: attempts.simps)
  next
    case (Failed err)
    let ?ch = "catch_handler b cfg ctl opts k (sourcesCreated s) n err ?s1"
    note ch = catch_handler_settlements [of b cfg ctl opts k "sourcesCreated s" n err ?s1]
    show ?thesis
    proof (cases "fst ?ch")
      case Retry
      then have q2: "requestQueue (snd ?ch) = requestQueue s"
        using q1 by (simp add: catch_handler_retry_queue)
      have run: "attempts b cfg ctl opts rid k n (a # answers) s =
                   attempts b cfg ctl opts rid k (Suc n) answers (snd ?ch)"
        using Failed Retry
        by (cases ?ch) (simp add: attempts_Failed del: attempts.simps)
      show ?thesis
        unfolding run using Cons.IH [of "Suc n" "snd ?ch"] ch Retry by (simp add: q2 t1)
    next
      case (Done out)
      have run: "attempts b cfg ctl opts rid k n (a # answers) s = (out, snd ?ch)"
        using Failed Done
        by (cases ?ch) (simp add: attempts_Failed del: attempts.simps)
      show ?thesis unfolding run using ch Done by (simp add: q1 t1)
    qed
  qed
qed

lemma callback_settlements:
  "settlements (trace (snd (callback b cfg ctl opts rid k answers s)))
     = settlements (trace s) @ settlement_of (fst (callback b cfg ctl opts rid k answers s)) (requestQueue s k)"
  by (simp add: callback_def Let_def attempts_settlements resolveRequest_settlements
      settlements_Cons split: option.splits sum.splits del: attempts.simps)

section \<open>The outcome does not depend on the state\<close>

lemma catch_handler_step_independent:
  "fst (catch_handler b cfg ctl opts k src n err s) = fst (catch_handler b cfg ctl opts k' src' n err s')"
  by (simp add: catch_handler_def Let_def split: option.splits prod.splits)

lemma on_response_outcome_independent:
  "fst (on_response cfg ctl opts rid k src r s) = fst (on_response cfg ctl opts rid' k' src' r s')"
  by (simp add: on_response_def resolve_with_response_def Let_def split: option.splits)

lemma attempts_outcome_independent:
  "fst (attempts b cfg ctl opts rid k n answers s) = fst (attempts b cfg ctl opts rid k n answers s')"
proof (induction answers arbitrary: n s s')
  case Nil
  show ?case by simp
next
  case (Cons a answers)
  obtain src s1 where st: "start_attempt opts n s = (src, s1)" by (cases "start_attempt opts n s")
  obtain src' s1' where st': "start_attempt opts n s' = (src', s1')"
    by (cases "start_attempt opts n s'")
  show ?case
  proof (cases a)
    case (Fulfilled r)
    with st st' on_response_outcome_independent [of cfg ctl opts rid k src _ s1 rid k src' s1']
    show ?thesis by simp
  next
    case (Failed err)
    obtain stp s2 where ch: "catch_handler b cfg ctl opts k src n err s1 = (stp, s2)"
      by (cases "catch_handler b cfg ctl opts k src n err s1")
    obtain stp' s2' where ch': "catch_handler b cfg ctl opts k src' n err s1' = (stp', s2')"
      by (cases "catch_handler b cfg ctl opts k src' n err s1'")
    have same: "stp' = stp"
      using catch_handler_step_independent [of b cfg ctl opts k src n err s1 k src' s1'] ch ch'
      by simp
    show ?thesis
    proof (cases stp)
      case Retry
      with same st st' ch ch' Failed
        Cons.IH [where n = "Suc n" and s = s2 and s' = s2']
      show ?thesis by simp
    next
      case (Done out)
      with same st st' ch ch' Failed show ?thesis by simp
    qed
  qed
qed

section \<open>A stale cache entry\<close>

text \<open>
  C6. A GET-equivalent request with a (non-empty) cacheId, a cache configured whose
  \<open>getCachedData\<close> gives an entry with \<open>isStale\<close> true. Then the callback is the
  attempts of the transport, started in the state in which the hook
  \<open>getStaleWhileRevalidate\<close> (if there is one) has been called with the stale data and
  what it threw (if it threw) has gone to \<open>console.error\<close>; the outcome is the one the
  attempts have without any cache, whatever the hook did; at least one transport call is
  made; a payload the group is resolved with is the (processed) response of one of
  the transport's answers, never the \<open>{ data }\<close> of the cache; and when the transport
  answers the first attempt with a response (and \<open>onServerSuccess\<close> does not throw) the
  group is resolved with that response. As to the callers' promises: the settlements
  the run adds to the trace are those of its outcome, one for every caller waiting in
  the group and in their order (so, in the case just described, every caller's
  \<open>resolve\<close> is called with that response, and the group is deleted); and no caller's
  \<open>resolve\<close> is called with a \<open>{ data }\<close> object by this run.
\<close>

theorem C6_stale_hit_revalidates:
  assumes "cacheId opts = Some cid" and "cid \<noteq> []"
    and "is_get (request_method (options opts))"
    and "cache cfg = Some c"
    and "getCachedData c cid requestId (headers opts) (options opts) = Inr (Some e)"
    and "isStale e = Some True"
  shows "callback b cfg ctl opts requestId requestKey answers s =
           attempts b cfg ctl opts requestId requestKey 0 answers
             (s\<lparr>trace := trace s @
                  (case getStaleWhileRevalidate opts of
                     None \<Rightarrow> []
                   | Some f \<Rightarrow>
                       StaleNotified (entry_data e) #
                       (case f (entry_data e) of None \<Rightarrow> [] | Some x \<Rightarrow> [ConsoleError x]))\<rparr>)
       \<and> fst (callback b cfg ctl opts requestId requestKey answers s)
           = fst (attempts b cfg ctl opts requestId requestKey 0 answers s)
       \<and> Suc (transport_calls (trace s))
           \<le> transport_calls (trace (snd (callback b cfg ctl opts requestId requestKey answers s)))
       \<and> (\<forall>f. getStaleWhileRevalidate opts = Some f \<longrightarrow>
             StaleNotified (entry_data e)
               \<in> set (trace (snd (callback b cfg ctl opts requestId requestKey answers s))))
       \<and> (\<forall>p. fst (callback b cfg ctl opts requestId requestKey answers s) = Resolved p \<longrightarrow>
             p \<noteq> DataOnly (entry_data e)
             \<and> (\<exists>r. Fulfilled r \<in> set answers \<and> p = FullResponse (then_handler ctl opts r)))
       \<and> (\<forall>r rest. answers = Fulfilled r # rest
               \<and> (\<forall>f. onServerSuccess opts = Some f \<longrightarrow> f (then_handler ctl opts r) = None) \<longrightarrow>
             fst (callback b cfg ctl opts requestId requestKey answers s)
               = Resolved (FullResponse (then_handler ctl opts r)))
       \<and> settlements (trace (snd (callback b cfg ctl opts requestId requestKey answers s)))
           = settlements (trace s) @
             settlement_of (fst (callback b cfg ctl opts requestId requestKey answers s))
               (requestQueue s requestKey)
       \<and> (\<forall>g r rest. requestQueue s requestKey = Some g \<and> g \<noteq> []
               \<and> answers = Fulfilled r # rest
               \<and> (\<forall>f. onServerSuccess opts = Some f \<longrightarrow> f (then_handler ctl opts r) = None) \<longrightarrow>
             settlements (trace (snd (callback b cfg ctl opts requestId requestKey answers s)))
               = settlements (trace s) @
                 map (\<lambda>q. Resolve (waiter q) (FullResponse (then_handler ctl opts r))) g
             \<and> requestQueue (snd (callback b cfg ctl opts requestId requestKey answers s)) requestKey
                 = None)
       \<and> (\<forall>w d. Resolve w (DataOnly d)
                 \<in> set (trace (snd (callback b cfg ctl opts requestId requestKey answers s))) \<longrightarrow>
               Resolve w (DataOnly d) \<in> set (trace s))"
proof -
  let ?notes = "case getStaleWhileRevalidate opts of
                  None \<Rightarrow> []
                | Some f \<Rightarrow>
                    StaleNotified (entry_data e) #
                    (case f (entry_data e) of None \<Rightarrow> [] | Some x \<Rightarrow> [ConsoleError x])"
  let ?s0 = "s\<lparr>trace := trace s @ ?notes\<rparr>"
  let ?run = "attempts b cfg ctl opts requestId requestKey 0 answers ?s0"
  have c: "callback b cfg ctl opts requestId requestKey answers s = ?run"
    using assms
    by (simp add: callback_def truthy_string_def Let_def split: option.splits)
  have out: "fst ?run = fst (attempts b cfg ctl opts requestId requestKey 0 answers s)"
    by (rule attempts_outcome_independent)
  have "Suc (transport_calls (trace ?s0)) \<le> transport_calls (trace (snd ?run))"
    by (rule attempts_transport_calls)
  moreover have "transport_calls ?notes = 0"
    by (simp add: transport_calls_def split: option.splits)
  ultimately have calls: "Suc (transport_calls (trace s)) \<le> transport_calls (trace (snd ?run))"
    by simp
  obtain evs where evs: "trace (snd ?run) = trace ?s0 @ evs"
    using attempts_trace_extends by blast
  have notified: "\<forall>f. getStaleWhileRevalidate opts = Some f \<longrightarrow>
                    StaleNotified (entry_data e) \<in> set (trace (snd ?run))"
    using evs by auto
  have fresh: "\<forall>p. fst ?run = Resolved p \<longrightarrow>
                 p \<noteq> DataOnly (entry_data e)
                 \<and> (\<exists>r. Fulfilled r \<in> set answers \<and> p = FullResponse (then_handler ctl opts r))"
    using attempts_resolved_from_transport [of b cfg ctl opts requestId requestKey 0 answers ?s0]
    by auto
  have answered: "\<forall>r rest. answers = Fulfilled r # rest
               \<and> (\<forall>f. onServerSuccess opts = Some f \<longrightarrow> f (then_handler ctl opts r) = None) \<longrightarrow>
             fst ?run = Resolved (FullResponse (then_handler ctl opts r))"
    by (auto simp add: attempts_Fulfilled on_response_resolves simp del: attempts.simps)
  let ?cb = "callback b cfg ctl opts requestId requestKey answers s"
  have label: "fst ?cb = fst ?run" by (simp only: c)
  have settled: "settlements (trace (snd ?cb))
                   = settlements (trace s) @ settlement_of (fst ?cb) (requestQueue s requestKey)"
    by (rule callback_settlements)
  have delivered: "\<forall>g r rest. requestQueue s requestKey = Some g \<and> g \<noteq> []
               \<and> answers = Fulfilled r # rest
               \<and> (\<forall>f. onServerSuccess opts = Some f \<longrightarrow> f (then_handler ctl opts r) = None) \<longrightarrow>
             settlements (trace (snd ?cb))
               = settlements (trace s) @
                 map (\<lambda>q. Resolve (waiter q) (FullResponse (then_handler ctl opts r))) g
             \<and> requestQueue (snd ?cb) requestKey = None"
  proof (intro allI impI)
    fix g r rest
    assume h: "requestQueue s requestKey = Some g \<and> g \<noteq> []
               \<and> answers = Fulfilled r # rest
               \<and> (\<forall>f. onServerSuccess opts = Some f \<longrightarrow> f (then_handler ctl opts r) = None)"
    then have o: "fst ?cb = Resolved (FullResponse (then_handler ctl opts r))"
      using answered label by simp
    have q: "requestQueue s requestKey = Some g" and ne: "g \<noteq> []" using h by simp_all
    have "requestQueue (snd ?cb) requestKey = None"
      using callback_settles_group [OF q ne, of b cfg ctl opts requestId answers
          "FullResponse (then_handler ctl opts r)"] o
      by simp
    moreover have "settlements (trace (snd ?cb))
               = settlements (trace s) @
                 map (\<lambda>q. Resolve (waiter q) (FullResponse (then_handler ctl opts r))) g"
      using settled by (simp only: o q settlement_of_group)
    ultimately show "settlements (trace (snd ?cb))
               = settlements (trace s) @
                 map (\<lambda>q. Resolve (waiter q) (FullResponse (then_handler ctl opts r))) g
             \<and> requestQueue (snd ?cb) requestKey = None"
      by simp
  qed
  have no_stale: "\<forall>w d. Resolve w (DataOnly d) \<in> set (trace (snd ?cb)) \<longrightarrow>
                    Resolve w (DataOnly d) \<in> set (trace s)"
  proof (intro allI impI)
    fix w d
    assume "Resolve w (DataOnly d) \<in> set (trace (snd ?cb))"
    then have "Resolve w (DataOnly d) \<in> set (settlements (trace (snd ?cb)))"
      by (simp add: settlements_def)
    then have "Resolve w (DataOnly d) \<in> set (settlements (trace s))
               \<or> Resolve w (DataOnly d) \<in> set (settlement_of (fst ?cb) (requestQueue s requestKey))"
      by (simp add: settled)
    moreover have "Resolve w (DataOnly d) \<notin> set (settlement_of (fst ?cb) (requestQueue s requestKey))"
      using fresh label
      by (auto simp add: settlement_of_def split: option.splits outcome.splits)
    ultimately show "Resolve w (DataOnly d) \<in> set (trace s)"
      by (simp add: settlements_def)
  qed
  have first: "?cb = ?run" by (rule c)
  have "fst ?cb = fst (attempts b cfg ctl opts requestId requestKey 0 answers s)"
    using out by (simp only: c)
  moreover have "Suc (transport_calls (trace s)) \<le> transport_calls (trace (snd ?cb))"
    using calls by (simp only: c)
  moreover have "\<forall>f. getStaleWhileRevalidate opts = Some f \<longrightarrow>
                    StaleNotified (entry_data e) \<in> set (trace (snd ?cb))"
    using notified by (simp only: c)
  moreover have "\<forall>p. fst ?cb = Resolved p \<longrightarrow>
                 p \<noteq> DataOnly (entry_data e)
                 \<and> (\<exists>r. Fulfilled r \<in> set answers \<and> p = FullResponse (then_handler ctl opts r))"
    using fresh by (simp only: c)
  moreover have "\<forall>r rest. answers = Fulfilled r # rest
               \<and> (\<forall>f. onServerSuccess opts = Some f \<longrightarrow> f (then_handler ctl opts r) = None) \<longrightarrow>
             fst ?cb = Resolved (FullResponse (then_handler ctl opts r))"
    using answered by (simp only: c)
  ultimately show ?thesis
    using first settled delivered no_stale by blast
qed

theorem C6_stale_hit_revalidates_witness:
  "fst (callback False (caching_configuration (Some stale_entry)) no_hooks throwing_stale_request
          6 6 [Fulfilled (sample_response 200 (JStr ''new''))] (one_waiting throwing_stale_request))
     = Resolved (FullResponse (sample_response 200 (JStr ''new'')))
   \<and> StaleNotified (JStr ''old'')
       \<in> set (trace (snd (callback False (caching_configuration (Some stale_entry)) no_hooks
            throwing_stale_request 6 6 [Fulfilled (sample_response 200 (JStr ''new''))]
            (one_waiting throwing_stale_request))))
   \<and> settlements (trace (snd (callback False (caching_configuration (Some stale_entry)) no_hooks
            throwing_stale_request 6 6 [Fulfilled (sample_response 200 (JStr ''new''))]
            (one_waiting throwing_stale_request))))
       = [Resolve 1 (FullResponse (sample_response 200 (JStr ''new'')))]
   \<and> Resolve 1 (DataOnly (JStr ''old''))
       \<notin> set (trace (snd (callback False (caching_configuration (Some stale_entry)) no_hooks
            throwing_stale_request 6 6 [Fulfilled (sample_response 200 (JStr ''new''))]
            (one_waiting throwing_stale_request))))"
proof -
  let ?opts = throwing_stale_request
  let ?r = "sample_response 200 (JStr ''new'')"
  have h1: "cacheId ?opts = Some ''users''"
    by (simp add: throwing_stale_request_def cached_users_request_def get_request_def)
  have h2: "''users'' \<noteq> []" by simp
  have h3: "is_get (request_method (options ?opts))"
    by (simp add: throwing_stale_request_def cached_users_request_def get_request_def
        is_get_def truthy_string_def)
  have h4: "cache (caching_configuration (Some stale_entry)) = Some (sample_cache (Some stale_entry))"
    by (simp add: caching_configuration_def created_configuration_def)
  have h5: "getCachedData (sample_cache (Some stale_entry)) ''users'' 6 (headers ?opts) (options ?opts)
              = Inr (Some stale_entry)"
    by (simp add: sample_cache_def)
  have h6: "isStale stale_entry = Some True" by (simp add: stale_entry_def)
  note th = C6_stale_hit_revalidates [OF h1 h2 h3 h4 h5 h6, of False no_hooks 6
      "[Fulfilled ?r]" "one_waiting ?opts"]
  have hook: "getStaleWhileRevalidate ?opts = Some (\<lambda>d. Some ''boom'')"
    by (simp add: throwing_stale_request_def)
  have d: "entry_data stale_entry = JStr ''old''" by (simp add: stale_entry_def)
  have quiet: "\<forall>f. onServerSuccess ?opts = Some f \<longrightarrow> f (then_handler no_hooks ?opts ?r) = None"
    by (simp add: throwing_stale_request_def cached_users_request_def get_request_def)
  have t: "then_handler no_hooks ?opts ?r = ?r"
    by (simp add: then_handler_def no_hooks_def throwing_stale_request_def
        cached_users_request_def get_request_def)
  have run: "fst (attempts False (caching_configuration (Some stale_entry)) no_hooks ?opts 6 6 0
               [Fulfilled ?r] (one_waiting ?opts)) = Resolved (FullResponse ?r)"
    using on_response_resolves [OF quiet] by (simp add: attempts_Fulfilled t del: attempts.simps)
  note outcome = th [THEN conjunct2, THEN conjunct1]
  note notified = th [THEN conjunct2, THEN conjunct2, THEN conjunct2, THEN conjunct1]
  have a: "fst (callback False (caching_configuration (Some stale_entry)) no_hooks ?opts 6 6
             [Fulfilled ?r] (one_waiting ?opts)) = Resolved (FullResponse ?r)"
    using outcome run by (rule trans)
  have "StaleNotified (entry_data stale_entry)
             \<in> set (trace (snd (callback False (caching_configuration (Some stale_entry)) no_hooks
                  ?opts 6 6 [Fulfilled ?r] (one_waiting ?opts))))"
    using notified hook by blast
  then have b: "StaleNotified (JStr ''old'')
             \<in> set (trace (snd (callback False (caching_configuration (Some stale_entry)) no_hooks
                  ?opts 6 6 [Fulfilled ?r] (one_waiting ?opts))))"
    by (simp only: d)
  let ?cb = "callback False (caching_configuration (Some stale_entry)) no_hooks ?opts 6 6
               [Fulfilled ?r] (one_waiting ?opts)"
  note delivered = th [THEN conjunct2, THEN conjunct2, THEN conjunct2, THEN conjunct2,
      THEN conjunct2, THEN conjunct2, THEN conjunct2, THEN conjunct1]
  note no_stale = th [THEN conjunct2, THEN conjunct2, THEN conjunct2, THEN conjunct2,
      THEN conjunct2, THEN conjunct2, THEN conjunct2, THEN conjunct2]
  have q: "requestQueue (one_waiting ?opts) 6 = Some [queued ?opts 1]"
    by (simp add: one_waiting_def)
  have ne: "[queued ?opts 1] \<noteq> []" by simp
  have t0: "trace (one_waiting ?opts) = []"
    by (simp add: one_waiting_def initial_state_def)
  have w: "waiter (queued ?opts 1) = 1"
    by (simp add: queued_def request_options.defs)
  have "settlements (trace (snd ?cb))
          = settlements (trace (one_waiting ?opts)) @
            map (\<lambda>q. Resolve (waiter q) (FullResponse (then_handler no_hooks ?opts ?r)))
              [queued ?opts 1]"
    using delivered q ne quiet by blast
  then have c: "settlements (trace (snd ?cb)) = [Resolve 1 (FullResponse ?r)]"
    by (simp only: t t0 w settlements_Nil list.map append_Nil)
  have e: "Resolve 1 (DataOnly (JStr ''old'')) \<notin> set (trace (snd ?cb))"
  proof
    assume "Resolve 1 (DataOnly (JStr ''old'')) \<in> set (trace (snd ?cb))"
    with no_stale have "Resolve 1 (DataOnly (JStr ''old'')) \<in> set (trace (one_waiting ?opts))"
      by blast
    then show False by (simp only: t0 list.set empty_iff)
  qed
  show ?thesis using a b c e by blast
qed

section \<open>Header rotation\<close>

text \<open>
  C9. An attempt that the transport answers with a response, with the hook
  \<open>rotateHeaders\<close> set: the hook gets the headers of the (processed) response and the
  current default headers, and what it returns is assigned into the default headers.
  Key by key: a key of the returned mapping has its new value, every other key has the
  value it had (and if the hook returns \<open>undefined\<close> nothing changes); the merged
  headers are what is stored.
\<close>

theorem C9_rotated_headers_are_merged:
  assumes "RequestController_rotateHeaders ctl = Some f"
    and "ret = f (r_headers (then_handler ctl opts r)) (defaultRequestHeaders s)"
    and "s' = snd (attempts b cfg ctl opts rid k n (Fulfilled r # answers) s)"
  shows "defaultRequestHeaders s'
           = (case ret of None \<Rightarrow> defaultRequestHeaders s | Some h \<Rightarrow> defaultRequestHeaders s ++ h)
       \<and> (\<forall>h key v. ret = Some h \<and> h key = Some v \<longrightarrow> defaultRequestHeaders s' key = Some v)
       \<and> (\<forall>h key. ret = Some h \<and> h key = None \<longrightarrow>
             defaultRequestHeaders s' key = defaultRequestHeaders s key)
       \<and> (ret = None \<longrightarrow> defaultRequestHeaders s' = defaultRequestHeaders s)
       \<and> storedRequestHeaders s' = Some (defaultRequestHeaders s')"
proof -
  let ?r = "then_handler ctl opts r"
  let ?s1 = "snd (start_attempt opts n s)"
  have s': "s' = snd (on_response cfg ctl opts rid k (sourcesCreated s) ?r ?s1)"
    using assms(3) by (simp add: attempts_Fulfilled del: attempts.simps)
  have d1: "defaultRequestHeaders ?s1 = defaultRequestHeaders s"
    by (rule start_attempt_frame(2))
  have merged: "defaultRequestHeaders s'
                  = (case ret of None \<Rightarrow> defaultRequestHeaders s
                     | Some h \<Rightarrow> defaultRequestHeaders s ++ h)"
    unfolding s' using assms(1,2) by (simp add: on_response_headers d1 split: option.splits)
  have stored: "storedRequestHeaders s' = Some (defaultRequestHeaders s')"
    unfolding s' using assms(1) by (simp add: on_response_stored)
  show ?thesis
    using merged stored by (auto simp add: map_add_def split: option.splits)
qed

theorem C9_rotated_headers_are_merged_witness:
  "defaultRequestHeaders (snd (attempts False created_configuration rotating_controller
       (get_request ''/users'') 6 6 0 [Fulfilled (sample_response 200 JNull)] signed_in_state))
     ''Authorization'' = Some ''token-2''
   \<and> defaultRequestHeaders (snd (attempts False created_configuration rotating_controller
       (get_request ''/users'') 6 6 0 [Fulfilled (sample_response 200 JNull)] signed_in_state))
     ''X-App'' = Some ''web''"
proof -
  let ?h = "[''Authorization'' \<mapsto> ''token-2'']"
  have h1: "RequestController_rotateHeaders rotating_controller = Some (\<lambda>res req. Some ?h)"
    by (simp add: rotating_controller_def)
  have a: "?h ''Authorization'' = Some ''token-2''" by simp
  have b: "?h ''X-App'' = None" by simp
  have old: "defaultRequestHeaders signed_in_state ''X-App'' = Some ''web''"
    by (simp add: signed_in_state_def)
  from C9_rotated_headers_are_merged [where b = False and cfg = created_configuration
      and opts = "get_request ''/users''" and r = "sample_response 200 JNull"
      and s = signed_in_state and rid = 6 and k = 6 and n = 0 and answers = "[]",
      OF h1 refl refl] a b old
  show ?thesis by simp
qed

section \<open>The two shapes of a resolved payload\<close>

lemma callback_cache_miss:
  assumes "cacheId opts = Some cid" and "cid \<noteq> []"
    and "is_get (request_method (options opts))"
    and "cache cfg = Some c"
    and "getCachedData c cid requestId (headers opts) (options opts) = Inr None"
  shows "callback b cfg ctl opts requestId requestKey answers s =
           attempts b cfg ctl opts requestId requestKey 0 answers s"
  using assms by (simp add: callback_def truthy_string_def)

lemma callback_no_cacheId:
  assumes "cacheId opts = None"
  shows "callback b cfg ctl opts requestId requestKey answers s =
           attempts b cfg ctl opts requestId requestKey 0 answers s"
  using assms by (simp add: callback_def truthy_string_def)

text \<open>
  C10. A GET-equivalent request with a (non-empty) cacheId and a cache configured, whose
  \<open>onServerSuccess\<close> does not throw, answered by the transport with a response if it
  comes to that, with the callers \<open>g\<close> waiting in its group. If \<open>getCachedData\<close> gives
  an entry that is not stale, the \<open>resolve\<close> of every caller is called with the object
  \<open>{ data }\<close>, which has the cached value as its \<open>data\<close> and neither status nor
  headers, and nothing else is added to the trace. If \<open>getCachedData\<close> gives \<open>null\<close>,
  the \<open>resolve\<close> of every caller is called with the (processed) response object, which
  has its status and headers. Either way these are the only settlements of the run and
  the group is deleted. So the same call sees either shape.
\<close>

theorem C10_cache_hit_resolves_with_data_only:
  assumes "cacheId opts = Some cid" and "cid \<noteq> []"
    and "is_get (request_method (options opts))"
    and "cache cfg = Some c"
    and "getCachedData c cid rid (headers opts) (options opts) = Inr res"
    and "\<forall>e. res = Some e \<longrightarrow> isStale e \<noteq> Some True"
    and "\<forall>f. onServerSuccess opts = Some f \<longrightarrow> f (then_handler ctl opts r) = None"
    and "requestQueue s k = Some g" and "g \<noteq> []"
    and "s' = snd (callback b cfg ctl opts rid k (Fulfilled r # answers) s)"
  shows "\<exists>p. fst (callback b cfg ctl opts rid k (Fulfilled r # answers) s) = Resolved p
           \<and> p = (case res of
                    Some e \<Rightarrow> DataOnly (entry_data e)
                  | None \<Rightarrow> FullResponse (then_handler ctl opts r))
           \<and> payload_data p = (case res of
                    Some e \<Rightarrow> entry_data e
                  | None \<Rightarrow> r_data (then_handler ctl opts r))
           \<and> payload_status p = (case res of
                    Some e \<Rightarrow> None
                  | None \<Rightarrow> Some (r_status (then_handler ctl opts r)))
           \<and> payload_headers p = (case res of
                    Some e \<Rightarrow> None
                  | None \<Rightarrow> Some (r_headers (then_handler ctl opts r)))
           \<and> settlements (trace s') = settlements (trace s) @ map (\<lambda>q. Resolve (waiter q) p) g
           \<and> (\<forall>q \<in> set g. Resolve (waiter q) p \<in> set (trace s'))
           \<and> requestQueue s' k = None
           \<and> (res \<noteq> None \<longrightarrow> trace s' = trace s @ map (\<lambda>q. Resolve (waiter q) p) g)"
proof -
  let ?cb = "callback b cfg ctl opts rid k (Fulfilled r # answers) s"
  let ?p = "case res of
              Some e \<Rightarrow> DataOnly (entry_data e)
            | None \<Rightarrow> FullResponse (then_handler ctl opts r)"
  have out: "fst ?cb = Resolved ?p"
  proof (cases res)
    case None
    have "?cb = attempts b cfg ctl opts rid k 0 (Fulfilled r # answers) s"
      using assms(1-5) None by (simp add: callback_cache_miss del: attempts.simps)
    then have "fst ?cb = Resolved (FullResponse (then_handler ctl opts r))"
      using on_response_resolves [OF assms(7)]
      by (simp add: attempts_Fulfilled del: attempts.simps)
    with None show ?thesis by simp
  next
    case (Some e)
    with assms(6) have "isStale e \<noteq> Some True" by simp
    with assms(1-5) Some
    have "?cb = (Resolved (DataOnly (entry_data e)), resolveRequest k (DataOnly (entry_data e)) s)"
      by (simp add: callback_fresh_hit del: attempts.simps)
    with Some show ?thesis by simp
  qed
  have shape: "payload_data ?p = (case res of
                    Some e \<Rightarrow> entry_data e
                  | None \<Rightarrow> r_data (then_handler ctl opts r))
           \<and> payload_status ?p = (case res of
                    Some e \<Rightarrow> None
                  | None \<Rightarrow> Some (r_status (then_handler ctl opts r)))
           \<and> payload_headers ?p = (case res of
                    Some e \<Rightarrow> None
                  | None \<Rightarrow> Some (r_headers (then_handler ctl opts r)))"
    by (simp split: option.splits)
  have "settlements (trace (snd ?cb))
          = settlements (trace s) @ settlement_of (fst ?cb) (requestQueue s k)"
    by (rule callback_settlements)
  then have settled: "settlements (trace s') = settlements (trace s) @ map (\<lambda>q. Resolve (waiter q) ?p) g"
    by (simp only: out assms(8) assms(10) settlement_of_group)
  have reached: "\<forall>q \<in> set g. Resolve (waiter q) ?p \<in> set (trace s')"
  proof
    fix q assume "q \<in> set g"
    then have "Resolve (waiter q) ?p \<in> set (settlements (trace s'))"
      unfolding settled by simp
    then show "Resolve (waiter q) ?p \<in> set (trace s')"
      by (simp add: settlements_def)
  qed
  have gone: "requestQueue s' k = None"
    using callback_settles_group [OF assms(8,9), of b cfg ctl opts rid "Fulfilled r # answers" ?p]
      out assms(10)
    by simp
  have exact: "res \<noteq> None \<longrightarrow> trace s' = trace s @ map (\<lambda>q. Resolve (waiter q) ?p) g"
  proof
    assume "res \<noteq> None"
    then obtain e where e: "res = Some e" by auto
    with assms(6) have "isStale e \<noteq> Some True" by simp
    with assms(1-5) e
    have "?cb = (Resolved (DataOnly (entry_data e)), resolveRequest k (DataOnly (entry_data e)) s)"
      by (simp add: callback_fresh_hit del: attempts.simps)
    then have "trace s' = trace (resolveRequest k (DataOnly (entry_data e)) s)"
      by (simp add: assms(10))
    then show "trace s' = trace s @ map (\<lambda>q. Resolve (waiter q) ?p) g"
      using resolveRequest_group(1) [OF assms(8,9)] e by simp
  qed
  show ?thesis
    using out shape settled reached gone exact by blast
qed

theorem C10_cache_hit_resolves_with_data_only_witness:
  "trace (snd (callback False (caching_configuration (Some fresh_entry)) no_hooks cached_users_request
            6 6 [Fulfilled (sample_response 200 (JStr ''new''))] (one_waiting cached_users_request)))
     = [Resolve 1 (DataOnly (JStr ''cached''))]
   \<and> payload_data (DataOnly (JStr ''cached'')) = JStr ''cached''
   \<and> payload_status (DataOnly (JStr ''cached'')) = None
   \<and> payload_headers (DataOnly (JStr ''cached'')) = None
   \<and> settlements (trace (snd (callback False (caching_configuration None) no_hooks
            cached_users_request 6 6 [Fulfilled (sample_response 200 (JStr ''new''))]
            (one_waiting cached_users_request))))
     = [Resolve 1 (FullResponse (sample_response 200 (JStr ''new'')))]
   \<and> payload_data (FullResponse (sample_response 200 (JStr ''new''))) = JStr ''new''
   \<and> payload_status (FullResponse (sample_response 200 (JStr ''new''))) = Some 200"
proof -
  let ?opts = cached_users_request
  let ?r = "sample_response 200 (JStr ''new'')"
  let ?s = "one_waiting ?opts"
  have h1: "cacheId ?opts = Some ''users''"
    by (simp add: cached_users_request_def get_request_def)
  have h2: "''users'' \<noteq> []" by simp
  have h3: "is_get (request_method (options ?opts))"
    by (simp add: cached_users_request_def get_request_def is_get_def truthy_string_def)
  have h4: "cache (caching_configuration res) = Some (sample_cache res)" for res
    by (simp add: caching_configuration_def created_configuration_def)
  have h5: "getCachedData (sample_cache res) ''users'' 6 (headers ?opts) (options ?opts) = Inr res"
    for res by (simp add: sample_cache_def)
  have h6a: "\<forall>e. Some fresh_entry = Some e \<longrightarrow> isStale e \<noteq> Some True"
    by (simp add: fresh_entry_def)
  have h6b: "\<forall>e. (None :: cache_entry option) = Some e \<longrightarrow> isStale e \<noteq> Some True" by simp
  have h7: "\<forall>f. onServerSuccess ?opts = Some f \<longrightarrow> f (then_handler no_hooks ?opts ?r) = None"
    by (simp add: cached_users_request_def get_request_def)
  have h8: "requestQueue ?s 6 = Some [queued ?opts 1]"
    by (simp add: one_waiting_def)
  have h9: "[queued ?opts 1] \<noteq> []" by simp
  have t: "then_handler no_hooks ?opts ?r = ?r"
    by (simp add: then_handler_def no_hooks_def cached_users_request_def get_request_def)
  have rd: "r_data ?r = JStr ''new''" "r_status ?r = 200"
    by (simp_all add: sample_response_def)
  have t0: "trace ?s = []"
    by (simp add: one_waiting_def initial_state_def)
  have w: "waiter (queued ?opts 1) = 1"
    by (simp add: queued_def request_options.defs)
  have d: "entry_data fresh_entry = JStr ''cached''" by (simp add: fresh_entry_def)
  from C10_cache_hit_resolves_with_data_only [OF h1 h2 h3 h4 h5 h6a h7 h8 h9 refl, of False "[]"]
  have "trace (snd (callback False (caching_configuration (Some fresh_entry)) no_hooks ?opts
                 6 6 [Fulfilled ?r] ?s))
          = trace ?s @ map (\<lambda>q. Resolve (waiter q) (DataOnly (entry_data fresh_entry)))
                         [queued ?opts 1]"
    by auto
  then have a: "trace (snd (callback False (caching_configuration (Some fresh_entry)) no_hooks ?opts
                 6 6 [Fulfilled ?r] ?s)) = [Resolve 1 (DataOnly (JStr ''cached''))]"
    by (simp only: t0 w d list.map append_Nil)
  from C10_cache_hit_resolves_with_data_only [OF h1 h2 h3 h4 h5 h6b h7 h8 h9 refl, of False "[]"]
  have "settlements (trace (snd (callback False (caching_configuration None) no_hooks ?opts
                 6 6 [Fulfilled ?r] ?s)))
          = settlements (trace ?s) @
            map (\<lambda>q. Resolve (waiter q) (FullResponse (then_handler no_hooks ?opts ?r)))
              [queued ?opts 1]"
    by auto
  then have b: "settlements (trace (snd (callback False (caching_configuration None) no_hooks ?opts
                 6 6 [Fulfilled ?r] ?s))) = [Resolve 1 (FullResponse ?r)]"
    by (simp only: t t0 w settlements_Nil list.map append_Nil)
  have shapes: "payload_data (DataOnly (JStr ''cached'')) = JStr ''cached''"
    "payload_status (DataOnly (JStr ''cached'')) = None"
    "payload_headers (DataOnly (JStr ''cached'')) = None"
    "payload_data (FullResponse ?r) = JStr ''new''"
    "payload_status (FullResponse ?r) = Some 200"
    by (simp_all add: rd)
  show ?thesis using a b shapes by blast
qed

section \<open>Session expiry\<close>

lemma errorMessage_expired:
  assumes "e_response err = Some r" and "truthy (r_data r)"
    and "server_message (r_data r) = Some m"
    and "m \<in> set EXPIRED_SESSION_ERROR_MESSAGES"
  shows "errorMessage lbl err = Some (m, True)"
  using assms by (simp add: errorMessage_def)

lemma failed_with_message_longer: "length m < length (failed_with_message lbl m)"
  by (simp add: failed_with_message_def)

text \<open>
  C3, as the code has it. A failed attempt, with \<open>preProcessResponseErrorMessages\<close> on,
  whose retry decision \<open>requestWillRetry\<close> has come to a value, and whose (processed)
  error carries a truthy \<open>response.data\<close> with one of the session-expiry phrases as its
  server-side message. Then the source of this attempt is taken off the registry, every
  source left there is cancelled, and: if no retry is warranted the group is rejected
  with \<open>Error(phrase)\<close>, the raw phrase and not the formatted message; if a retry is
  warranted (the hook \<open>shouldRetryRequest\<close> said so) the handler goes on to the next
  attempt and does not reject.
\<close>

theorem C3_expiry_cancels_others_and_rejects_unless_retried:
  assumes "preProcessResponseErrorMessages cfg"
    and "requestWillRetry b ctl Uninitialised err0 n = Some willRetry"
    and "err = (case RequestController_processResponseError ctl of
                  Some f \<Rightarrow> f err0
                | None \<Rightarrow> err0)"
    and "e_response err = Some r" and "truthy (r_data r)"
    and "server_message (r_data r) = Some m"
    and "m \<in> set EXPIRED_SESSION_ERROR_MESSAGES"
    and "others = splice_indexOf (pendingRequestCancelTokenSources s) src"
    and "s1 = s\<lparr>pendingRequestCancelTokenSources := others,
                 trace := trace s @ map (\<lambda>listener. ErrorEvent listener err) (eventsQueue_error s)
                            @ map Cancel others\<rparr>"
  shows "catch_handler b cfg ctl opts k src n err0 s =
           (if willRetry then (Retry, s1)
            else (Done (Rejected (ErrorValue m)), rejectRequest k (ErrorValue m) s1))
       \<and> (\<forall>x \<in> set others. Cancel x \<in> set (trace (snd (catch_handler b cfg ctl opts k src n err0 s))))
       \<and> m \<noteq> failed_with_message (label_of opts) m"
proof -
  have msg: "errorMessage (label_of opts) err = Some (m, True)"
    using assms(4-7) by (rule errorMessage_expired)
  have step: "catch_handler b cfg ctl opts k src n err0 s =
           (if willRetry then (Retry, s1)
            else (Done (Rejected (ErrorValue m)), rejectRequest k (ErrorValue m) s1))"
    using assms(1,2) msg
    by (simp add: catch_handler_def Let_def assms(3) [symmetric] assms(8) [symmetric] assms(9))
  have "\<forall>x \<in> set others. Cancel x \<in> set (trace s1)"
    by (simp add: assms(9))
  then have cancelled:
    "\<forall>x \<in> set others. Cancel x \<in> set (trace (snd (catch_handler b cfg ctl opts k src n err0 s)))"
    by (auto simp add: step rejectRequest_trace)
  have "m \<noteq> failed_with_message (label_of opts) m"
    using failed_with_message_longer [of m "label_of opts"] by auto
  with step cancelled show ?thesis by simp
qed

section \<open>The first call of a request, from the initial state\<close>

lemma fetchData_first_call:
  assumes "hashIt (hashableRequestOptions fd now (queued opts w)) = k"
    and "requestQueue s k = None"
    and "cacheId opts = None"
  shows "fetchData hashIt fd b cfg ctl now opts w answers s =
           (Some (fst (attempts b cfg ctl opts (hashIt (options opts)) k 0 answers
                         (s\<lparr>requestQueue := (requestQueue s)(k \<mapsto> [queued opts w])\<rparr>))),
            snd (attempts b cfg ctl opts (hashIt (options opts)) k 0 answers
                   (s\<lparr>requestQueue := (requestQueue s)(k \<mapsto> [queued opts w])\<rparr>)))"
proof -
  have "queueRequest hashIt fd now (queued opts w) s
          = (Some k, s\<lparr>requestQueue := (requestQueue s)(k \<mapsto> [queued opts w])\<rparr>)"
    using assms(1,2) by (rule queueRequest_new)
  then show ?thesis
    by (simp add: fetchData_def Let_def queued_def callback_no_cacheId [OF assms(3)]
        split: prod.splits del: attempts.simps)
qed

lemma sample_hash_users:
  "sample_hash (hashableRequestOptions fd now (queued (get_request ''/users'') w)) = 6"
  by (simp add: sample_hash_def hashableRequestOptions_def queued_def get_request_def
      request_options.defs)

lemma sample_hash_get_request: "sample_hash (options (get_request ''/users'')) = 6"
  by (simp add: sample_hash_def get_request_def)

lemma initial_state_no_group: "requestQueue initial_state k = None"
  by (simp add: initial_state_def)

lemma get_request_no_cacheId: "cacheId (get_request u) = None"
  by (simp add: get_request_def)

lemma first_users_call:
  "fetchData sample_hash fd b cfg ctl now (get_request ''/users'') 1 answers initial_state =
     (Some (fst (attempts b cfg ctl (get_request ''/users'') 6 6 0 answers
                   (one_waiting (get_request ''/users'')))),
      snd (attempts b cfg ctl (get_request ''/users'') 6 6 0 answers
             (one_waiting (get_request ''/users''))))"
  using fetchData_first_call [where hashIt = sample_hash and opts = "get_request ''/users''"
      and w = 1 and k = 6 and s = initial_state and fd = fd and now = now,
      OF sample_hash_users initial_state_no_group get_request_no_cacheId]
  by (simp add: sample_hash_get_request one_waiting_def initial_state_def del: attempts.simps)

theorem C3_expiry_cancels_others_and_rejects_unless_retried_witness:
  "fst (catch_handler False created_configuration no_hooks (get_request ''/users'') 6 1 0
          (sample_error 401 ''Session expired'') busy_state)
     = Done (Rejected (ErrorValue ''Session expired''))
   \<and> Cancel 0 \<in> set (trace (snd (catch_handler False created_configuration no_hooks
          (get_request ''/users'') 6 1 0 (sample_error 401 ''Session expired'') busy_state)))
   \<and> Cancel 2 \<in> set (trace (snd (catch_handler False created_configuration no_hooks
          (get_request ''/users'') 6 1 0 (sample_error 401 ''Session expired'') busy_state)))"
proof -
  let ?err = "sample_error 401 ''Session expired''"
  let ?r = "sample_response 401 (JObj [(''message'', JStr ''Session expired'')])"
  have h1: "preProcessResponseErrorMessages created_configuration"
    by (simp add: created_configuration_def)
  have h2: "requestWillRetry False no_hooks Uninitialised ?err 0 = Some False"
    by (simp add: requestWillRetry_def no_hooks_def read_const_def)
  have h3: "?err = (case RequestController_processResponseError no_hooks of
                      Some f \<Rightarrow> f ?err
                    | None \<Rightarrow> ?err)"
    by (simp add: no_hooks_def)
  have h4: "e_response ?err = Some ?r" by (simp add: sample_error_def)
  have h5: "truthy (r_data ?r)" by (simp add: sample_response_def)
  have h6: "server_message (r_data ?r) = Some ''Session expired''"
    by (simp add: sample_response_def server_message_def)
  have h7: "''Session expired'' \<in> set EXPIRED_SESSION_ERROR_MESSAGES"
    by (simp add: EXPIRED_SESSION_ERROR_MESSAGES_def)
  have h8: "[0, 2] = splice_indexOf (pendingRequestCancelTokenSources busy_state) 1"
    by (simp add: busy_state_def splice_indexOf_def)
  note th = C3_expiry_cancels_others_and_rejects_unless_retried
      [OF h1 h2 h3 h4 h5 h6 h7 h8 refl, of "get_request ''/users''" 6]
  have a: "fst (catch_handler False created_configuration no_hooks (get_request ''/users'') 6 1 0
             ?err busy_state) = Done (Rejected (ErrorValue ''Session expired''))"
    using th [THEN conjunct1] by simp
  have b: "\<forall>x \<in> set [0, 2]. Cancel x \<in> set (trace (snd (catch_handler False
             created_configuration no_hooks (get_request ''/users'') 6 1 0 ?err busy_state)))"
    using th [THEN conjunct2, THEN conjunct1] .
  show ?thesis using a b by simp
qed

text \<open>
  Where C3 as stated fails: the message is a session-expiry phrase, the hook
  \<open>shouldRetryRequest\<close> asks for a retry, and the handler retries: the transport is
  called a second time and the group is resolved, not rejected.
\<close>

theorem C3_expiry_retried_counterexample:
  "errorMessage ''operation'' (sample_error 401 ''Session expired'') = Some (''Session expired'', True)
   \<and> fst (catch_handler False created_configuration insisting_controller (get_request ''/users'')
            6 1 0 (sample_error 401 ''Session expired'') busy_state) = Retry
   \<and> fst (fetchData sample_hash True False created_configuration insisting_controller 0
            (get_request ''/users'') 1
            [Failed (sample_error 401 ''Session expired''), Fulfilled (sample_response 200 JNull)]
            initial_state)
       = Some (Resolved (FullResponse (sample_response 200 JNull)))
   \<and> transport_calls (trace (snd (fetchData sample_hash True False created_configuration
            insisting_controller 0 (get_request ''/users'') 1
            [Failed (sample_error 401 ''Session expired''), Fulfilled (sample_response 200 JNull)]
            initial_state))) = 2"
proof -
  let ?err = "sample_error 401 ''Session expired''"
  let ?ok = "sample_response 200 JNull"
  let ?opts = "get_request ''/users''"
  have msg: "errorMessage ''operation'' ?err = Some (''Session expired'', True)"
    by (simp add: errorMessage_def sample_error_def sample_response_def server_message_def
        EXPIRED_SESSION_ERROR_MESSAGES_def)
  have will: "requestWillRetry False insisting_controller Uninitialised ?err n = Some True" for n
    by (simp add: requestWillRetry_def insisting_controller_def no_hooks_def)
  have lbl: "label_of ?opts = ''operation''"
    by (simp add: label_of_def get_request_def)
  have pre: "preProcessResponseErrorMessages created_configuration"
    by (simp add: created_configuration_def)
  have same: "RequestController_processResponseError insisting_controller = None"
    by (simp add: insisting_controller_def no_hooks_def)
  have retry: "fst (catch_handler False created_configuration insisting_controller ?opts k src 0
                 ?err s) = Retry" for k src s
    by (simp add: catch_handler_def Let_def will pre same lbl msg)
  let ?run = "attempts False created_configuration insisting_controller ?opts 6 6 0
                [Failed ?err, Fulfilled ?ok] (one_waiting ?opts)"
  have f: "fetchData sample_hash True False created_configuration insisting_controller 0 ?opts 1
             [Failed ?err, Fulfilled ?ok] initial_state = (Some (fst ?run), snd ?run)"
    by (rule first_users_call)
  obtain src s1 where st: "start_attempt ?opts 0 (one_waiting ?opts) = (src, s1)"
    by (cases "start_attempt ?opts 0 (one_waiting ?opts)")
  obtain stp s2 where ch: "catch_handler False created_configuration insisting_controller ?opts 6
                             src 0 ?err s1 = (stp, s2)"
    by (cases "catch_handler False created_configuration insisting_controller ?opts 6 src 0 ?err s1")
  have stp: "stp = Retry" using retry [of 6 src s1] ch by simp
  have run: "?run = attempts False created_configuration insisting_controller ?opts 6 6 1
                      [Fulfilled ?ok] s2"
    using st ch stp by simp
  have t: "then_handler insisting_controller ?opts ?ok = ?ok"
    by (simp add: then_handler_def insisting_controller_def no_hooks_def get_request_def)
  have quiet: "\<forall>f. onServerSuccess ?opts = Some f \<longrightarrow> f ?ok = None"
    by (simp add: get_request_def)
  have out: "fst ?run = Resolved (FullResponse ?ok)"
    unfolding run using on_response_resolves [OF quiet]
    by (simp add: attempts_Fulfilled t del: attempts.simps)
  have c1: "transport_calls (trace s1) = 1"
    using start_attempt_frame(5) [of ?opts 0 "one_waiting ?opts"] st
    by (simp add: one_waiting_def initial_state_def)
  have c2: "transport_calls (trace s2) = 1"
    using catch_handler_frame(1) [of False created_configuration insisting_controller ?opts 6
        src 0 ?err s1] ch c1 by simp
  have calls: "transport_calls (trace (snd ?run)) = 2"
    unfolding run
    by (simp add: attempts_Fulfilled on_response_frame(1) start_attempt_frame(5) c2
        del: attempts.simps)
  show ?thesis
    using msg retry [of 6 1 busy_state] out calls f by (simp del: attempts.simps)
qed

section \<open>The retry decision as the handler takes it\<close>

lemma requestWillRetry_in_handler:
  "requestWillRetry b ctl Uninitialised err n =
     (if (case RequestController_shouldRetryRequest ctl of
            Some f \<Rightarrow> f err n
          | None \<Rightarrow> False)
      then Some True
      else if b then None else Some False)"
  by (simp add: requestWillRetry_def read_const_def Let_def)

lemma catch_handler_no_retry:
  assumes "requestWillRetry b ctl Uninitialised err n \<noteq> Some True"
  shows "fst (catch_handler b cfg ctl opts k src n err s) \<noteq> Retry"
  using assms
  by (auto simp add: catch_handler_def Let_def split: option.splits prod.splits)

lemma attempts_Failed_no_retry:
  assumes "fst (catch_handler b cfg ctl opts k (sourcesCreated s) n err (snd (start_attempt opts n s)))
             \<noteq> Retry"
  shows "attempts b cfg ctl opts rid k n (Failed err # answers) s =
           (case fst (catch_handler b cfg ctl opts k (sourcesCreated s) n err
                        (snd (start_attempt opts n s))) of
              Done out \<Rightarrow> out
            | Retry \<Rightarrow> InFlight,
            snd (catch_handler b cfg ctl opts k (sourcesCreated s) n err
                   (snd (start_attempt opts n s))))"
proof -
  obtain stp s2 where ch: "catch_handler b cfg ctl opts k (sourcesCreated s) n err
                             (snd (start_attempt opts n s)) = (stp, s2)"
    by (cases "catch_handler b cfg ctl opts k (sourcesCreated s) n err (snd (start_attempt opts n s))")
  with assms obtain out where "stp = Done out" by (cases stp) auto
  with ch show ?thesis by (simp add: attempts_Failed del: attempts.simps)
qed

lemma catch_handler_reference_error:
  assumes "requestWillRetry b ctl Uninitialised err n = None"
  shows "catch_handler b cfg ctl opts k src n err s = (Done (Uncaught ''ReferenceError''), s)"
  using assms by (simp add: catch_handler_def)

lemma catch_handler_rejects:
  assumes "requestWillRetry b ctl Uninitialised err0 n = Some False"
    and "err = (case RequestController_processResponseError ctl of
                  Some f \<Rightarrow> f err0
                | None \<Rightarrow> err0)"
  shows "preProcessResponseErrorMessages cfg \<Longrightarrow> errorMessage (label_of opts) err = Some (msg, c)
           \<Longrightarrow> fst (catch_handler b cfg ctl opts k src n err0 s) = Done (Rejected (ErrorValue msg))"
    and "\<not> preProcessResponseErrorMessages cfg
           \<Longrightarrow> fst (catch_handler b cfg ctl opts k src n err0 s) = Done (Rejected (RawError err))"
  using assms by (simp_all add: catch_handler_def Let_def)

text \<open>
  C2, what the code does. An attempt that fails with a response attached, the hook
  \<open>shouldRetryRequest\<close> absent or answering false: whatever the status and the attempt
  number, \<open>requestWillRetry\<close> is never true (the \<open>response\<close> it tests is the constant
  of the enclosing function, not yet initialised: the test reads \<open>undefined\<close>, or
  throws a ReferenceError where \<open>const\<close> is block scoped). So the handler does not
  retry, and this attempt's transport call is the last of the group, whatever the
  transport would answer to further attempts: the group is rejected at once (with the
  formatted message, or with the error itself when error messages are not
  pre-processed), or left unsettled by the ReferenceError.
\<close>

theorem C2_default_retry_never_taken:
  assumes "e_response err0 = Some r"
    and "\<forall>f. RequestController_shouldRetryRequest ctl = Some f \<longrightarrow> \<not> f err0 n"
    and "err = (case RequestController_processResponseError ctl of
                  Some f \<Rightarrow> f err0
                | None \<Rightarrow> err0)"
  shows "requestWillRetry b ctl Uninitialised err0 n = (if b then None else Some False)
       \<and> fst (catch_handler b cfg ctl opts k src n err0 s) \<noteq> Retry
       \<and> transport_calls (trace (snd (attempts b cfg ctl opts rid k n (Failed err0 # answers) s)))
           = Suc (transport_calls (trace s))
       \<and> (b \<longrightarrow> fst (attempts b cfg ctl opts rid k n (Failed err0 # answers) s)
                   = Uncaught ''ReferenceError'')
       \<and> (\<not> b \<and> preProcessResponseErrorMessages cfg \<longrightarrow>
             (\<forall>msg c. errorMessage (label_of opts) err = Some (msg, c) \<longrightarrow>
                fst (attempts b cfg ctl opts rid k n (Failed err0 # answers) s)
                  = Rejected (ErrorValue msg)))
       \<and> (\<not> b \<and> \<not> preProcessResponseErrorMessages cfg \<longrightarrow>
             fst (attempts b cfg ctl opts rid k n (Failed err0 # answers) s)
               = Rejected (RawError err))"
proof -
  let ?s1 = "snd (start_attempt opts n s)"
  let ?ch = "catch_handler b cfg ctl opts k (sourcesCreated s) n err0 ?s1"
  have w: "requestWillRetry b ctl Uninitialised err0 n = (if b then None else Some False)"
    using assms(2) by (simp add: requestWillRetry_in_handler split: option.splits)
  then have nt: "requestWillRetry b ctl Uninitialised err0 n \<noteq> Some True" by simp
  have nr: "fst (catch_handler b cfg ctl opts k src n err0 s) \<noteq> Retry" for src s
    using nt by (rule catch_handler_no_retry)
  note run = attempts_Failed_no_retry [where s = s and rid = rid and answers = answers, OF nr]
  have calls: "transport_calls (trace (snd (attempts b cfg ctl opts rid k n (Failed err0 # answers) s)))
          = Suc (transport_calls (trace s))"
    by (simp add: run catch_handler_frame(1) start_attempt_frame(5) del: attempts.simps)
  have thrown: "b \<longrightarrow> fst (attempts b cfg ctl opts rid k n (Failed err0 # answers) s)
                        = Uncaught ''ReferenceError''"
  proof
    assume "b"
    with w have "requestWillRetry b ctl Uninitialised err0 n = None" by simp
    then have "?ch = (Done (Uncaught ''ReferenceError''), ?s1)"
      by (rule catch_handler_reference_error)
    then show "fst (attempts b cfg ctl opts rid k n (Failed err0 # answers) s)
                 = Uncaught ''ReferenceError''"
      by (simp add: run del: attempts.simps)
  qed
  have formatted: "\<not> b \<and> preProcessResponseErrorMessages cfg \<longrightarrow>
             (\<forall>msg c. errorMessage (label_of opts) err = Some (msg, c) \<longrightarrow>
                fst (attempts b cfg ctl opts rid k n (Failed err0 # answers) s)
                  = Rejected (ErrorValue msg))"
  proof (intro impI allI)
    fix msg c
    assume h: "\<not> b \<and> preProcessResponseErrorMessages cfg"
      and m: "errorMessage (label_of opts) err = Some (msg, c)"
    from h w have w': "requestWillRetry b ctl Uninitialised err0 n = Some False" by simp
    from h have p: "preProcessResponseErrorMessages cfg" by simp
    have "fst ?ch = Done (Rejected (ErrorValue msg))"
      using w' assms(3) p m by (rule catch_handler_rejects(1))
    then show "fst (attempts b cfg ctl opts rid k n (Failed err0 # answers) s)
                 = Rejected (ErrorValue msg)"
      by (simp add: run del: attempts.simps)
  qed
  have raw: "\<not> b \<and> \<not> preProcessResponseErrorMessages cfg \<longrightarrow>
             fst (attempts b cfg ctl opts rid k n (Failed err0 # answers) s)
               = Rejected (RawError err)"
  proof
    assume h: "\<not> b \<and> \<not> preProcessResponseErrorMessages cfg"
    from h w have w': "requestWillRetry b ctl Uninitialised err0 n = Some False" by simp
    from h have p: "\<not> preProcessResponseErrorMessages cfg" by simp
    have "fst ?ch = Done (Rejected (RawError err))"
      using w' assms(3) p by (rule catch_handler_rejects(2))
    then show "fst (attempts b cfg ctl opts rid k n (Failed err0 # answers) s)
                 = Rejected (RawError err)"
      by (simp add: run del: attempts.simps)
  qed
  show ?thesis using w nr calls thrown formatted raw by blast
qed

theorem C2_default_retry_never_taken_witness:
  "503 \<notin> set FAILED_REQUEST_RETRY_STATUS_BLACKLIST \<and> 0 < MAX_REQUEST_RETRY_COUNT
   \<and> requestWillRetry False no_hooks Uninitialised (sample_error 503 ''busy'') 0 = Some False
   \<and> requestWillRetry True no_hooks Uninitialised (sample_error 503 ''busy'') 0 = None
   \<and> transport_calls (trace (snd (fetchData sample_hash True False created_configuration no_hooks 0
        (get_request ''/users'') 1
        [Failed (sample_error 503 ''busy''), Fulfilled (sample_response 200 JNull)]
        initial_state))) = 1
   \<and> fst (fetchData sample_hash True False created_configuration no_hooks 0
        (get_request ''/users'') 1
        [Failed (sample_error 503 ''busy''), Fulfilled (sample_response 200 JNull)]
        initial_state) = Some (Rejected (ErrorValue (failed_with_message ''operation'' ''busy'')))
   \<and> transport_calls (trace (snd (fetchData sample_hash True True created_configuration no_hooks 0
        (get_request ''/users'') 1
        [Failed (sample_error 503 ''busy''), Fulfilled (sample_response 200 JNull)]
        initial_state))) = 1
   \<and> fst (fetchData sample_hash True True created_configuration no_hooks 0
        (get_request ''/users'') 1
        [Failed (sample_error 503 ''busy''), Fulfilled (sample_response 200 JNull)]
        initial_state) = Some (Uncaught ''ReferenceError'')"
proof -
  let ?err = "sample_error 503 ''busy''"
  let ?opts = "get_request ''/users''"
  let ?answers = "[Fulfilled (sample_response 200 JNull)]"
  have h1: "e_response ?err = Some (sample_response 503 (JObj [(''message'', JStr ''busy'')]))"
    by (simp add: sample_error_def)
  have h2: "\<forall>f. RequestController_shouldRetryRequest no_hooks = Some f \<longrightarrow> \<not> f ?err 0"
    by (simp add: no_hooks_def)
  have h3: "?err = (case RequestController_processResponseError no_hooks of
                      Some f \<Rightarrow> f ?err
                    | None \<Rightarrow> ?err)"
    by (simp add: no_hooks_def)
  note th = C2_default_retry_never_taken [OF h1 h2 h3, where cfg = created_configuration
      and opts = ?opts and rid = 6 and k = 6 and answers = ?answers and s = "one_waiting ?opts"]
  have t0: "transport_calls (trace (one_waiting ?opts)) = 0"
    by (simp add: one_waiting_def initial_state_def)
  have pre: "preProcessResponseErrorMessages created_configuration"
    by (simp add: created_configuration_def)
  have msg: "errorMessage (label_of ?opts) ?err = Some (failed_with_message ''operation'' ''busy'', False)"
    by (simp add: errorMessage_def sample_error_def sample_response_def server_message_def
        EXPIRED_SESSION_ERROR_MESSAGES_def label_of_def get_request_def)
  have a: "requestWillRetry False no_hooks Uninitialised ?err 0 = Some False"
    using th [where b = False] by simp
  have b: "requestWillRetry True no_hooks Uninitialised ?err 0 = None"
    using th [where b = True] by simp
  have c: "transport_calls (trace (snd (attempts b created_configuration no_hooks ?opts 6 6 0
             (Failed ?err # ?answers) (one_waiting ?opts)))) = 1" for b
    using th [where b = b] t0 by simp
  have d: "fst (attempts False created_configuration no_hooks ?opts 6 6 0
             (Failed ?err # ?answers) (one_waiting ?opts))
           = Rejected (ErrorValue (failed_with_message ''operation'' ''busy''))"
    using th [where b = False] pre msg by blast
  have e: "fst (attempts True created_configuration no_hooks ?opts 6 6 0
             (Failed ?err # ?answers) (one_waiting ?opts)) = Uncaught ''ReferenceError''"
    using th [where b = True] by blast
  note f = first_users_call [where fd = True and cfg = created_configuration and ctl = no_hooks
      and now = 0 and answers = "Failed ?err # ?answers"]
  have limits: "503 \<notin> set FAILED_REQUEST_RETRY_STATUS_BLACKLIST \<and> 0 < MAX_REQUEST_RETRY_COUNT"
    by (simp add: FAILED_REQUEST_RETRY_STATUS_BLACKLIST_def MAX_REQUEST_RETRY_COUNT_def)
  show ?thesis
    using limits a b c [of False] c [of True] d e f [where b = False] f [where b = True]
    by (simp del: attempts.simps)
qed

section \<open>The response processors\<close>

text \<open>
  C5, what the code does. The \<open>then\<close> handler gives the call's own processor the
  output of the controller's processor; but when the call has no processor it returns
  the response as the transport gave it, and the output of the controller's processor
  is dropped. With \<open>onServerSuccess\<close> not throwing, that value is what the group is
  resolved with.
\<close>

theorem C5_controller_output_dropped:
  assumes "\<forall>f. onServerSuccess opts = Some f \<longrightarrow> f (then_handler ctl opts r) = None"
  shows "then_handler ctl opts r =
           (case processResponse opts of
              Some g \<Rightarrow> g (case RequestController_processResponse ctl of
                             Some f \<Rightarrow> f r
                           | None \<Rightarrow> r)
            | None \<Rightarrow> r)
       \<and> fst (attempts b cfg ctl opts rid k n (Fulfilled r # answers) s)
           = Resolved (FullResponse (then_handler ctl opts r))"
proof -
  have "fst (attempts b cfg ctl opts rid k n (Fulfilled r # answers) s)
          = Resolved (FullResponse (then_handler ctl opts r))"
    using on_response_resolves [OF assms] by (simp add: attempts_Fulfilled del: attempts.simps)
  then show ?thesis by (simp add: then_handler_def Let_def split: option.splits)
qed

theorem C5_controller_output_dropped_witness:
  "unwrap (sample_response 200 (JStr ''raw'')) \<noteq> sample_response 200 (JStr ''raw'')
   \<and> then_handler processing_controller (get_request ''/users'') (sample_response 200 (JStr ''raw''))
       = sample_response 200 (JStr ''raw'')
   \<and> fst (fetchData sample_hash True False created_configuration processing_controller 0
            (get_request ''/users'') 1 [Fulfilled (sample_response 200 (JStr ''raw''))] initial_state)
       = Some (Resolved (FullResponse (sample_response 200 (JStr ''raw''))))"
proof -
  let ?r = "sample_response 200 (JStr ''raw'')"
  let ?opts = "get_request ''/users''"
  have h: "\<forall>f. onServerSuccess ?opts = Some f \<longrightarrow> f (then_handler processing_controller ?opts ?r) = None"
    by (simp add: get_request_def)
  note th = C5_controller_output_dropped [OF h, where b = False and cfg = created_configuration
      and rid = 6 and k = 6 and n = 0 and answers = "[]" and s = "one_waiting ?opts"]
  have np: "processResponse ?opts = None" by (simp add: get_request_def)
  have t: "then_handler processing_controller ?opts ?r = ?r"
    using th [THEN conjunct1] by (simp add: np)
  have out: "fst (attempts False created_configuration processing_controller ?opts 6 6 0
               [Fulfilled ?r] (one_waiting ?opts)) = Resolved (FullResponse ?r)"
    using th [THEN conjunct2] by (simp only: t)
  have differs: "unwrap ?r \<noteq> ?r"
  proof
    assume "unwrap ?r = ?r"
    then have "r_data (unwrap ?r) = r_data ?r" by simp
    then show False by (simp add: unwrap_def sample_response_def)
  qed
  note f = first_users_call [where fd = True and b = False and cfg = created_configuration
      and ctl = processing_controller and now = 0 and answers = "[Fulfilled ?r]"]
  show ?thesis using differs t out f by (simp del: attempts.simps)
qed

section \<open>The registry of cancel token sources\<close>

lemma catch_handler_plain_reject:
  assumes "\<not> preProcessResponseErrorMessages cfg"
    and "requestWillRetry b ctl Uninitialised err0 n = Some False"
  shows "catch_handler b cfg ctl opts k src n err0 s =
           (let err = (case RequestController_processResponseError ctl of
                         Some f \<Rightarrow> f err0
                       | None \<Rightarrow> err0)
            in (Done (Rejected (RawError err)),
                rejectRequest k (RawError err)
                  (s\<lparr>trace := trace s @ map (\<lambda>listener. ErrorEvent listener err) (eventsQueue_error s)\<rparr>)))"
  using assms by (simp add: catch_handler_def Let_def)

lemma catch_handler_keeps_registry:
  assumes "\<not> preProcessResponseErrorMessages cfg"
  shows "pendingRequestCancelTokenSources (snd (catch_handler b cfg ctl opts k src n err s))
           = pendingRequestCancelTokenSources s"
  using assms
  by (simp add: catch_handler_def Let_def rejectRequest_frame(2) split: option.splits)

text \<open>
  C7, what the code does. With \<open>preProcessResponseErrorMessages\<close> off, the \<open>catch\<close>
  handler never takes the source of the failed attempt off the registry, however it
  ends: the \<open>splice\<close> of the failure path is inside the block of that flag. So an
  attempt that fails and is not retried rejects the group with the (processed) error,
  and its source is still registered.
\<close>

theorem C7_source_stays_registered_without_preprocessing:
  assumes "\<not> preProcessResponseErrorMessages cfg"
    and "err = (case RequestController_processResponseError ctl of
                  Some f \<Rightarrow> f err0
                | None \<Rightarrow> err0)"
    and "s1 = snd (start_attempt opts n s)"
  shows "pendingRequestCancelTokenSources s1 = pendingRequestCancelTokenSources s @ [sourcesCreated s]
       \<and> pendingRequestCancelTokenSources
            (snd (catch_handler b cfg ctl opts k (sourcesCreated s) n err0 s1))
           = pendingRequestCancelTokenSources s @ [sourcesCreated s]
       \<and> (requestWillRetry b ctl Uninitialised err0 n = Some False \<longrightarrow>
             fst (attempts b cfg ctl opts rid k n (Failed err0 # answers) s) = Rejected (RawError err)
             \<and> pendingRequestCancelTokenSources
                   (snd (attempts b cfg ctl opts rid k n (Failed err0 # answers) s))
                 = pendingRequestCancelTokenSources s @ [sourcesCreated s])"
proof -
  have pushed: "pendingRequestCancelTokenSources s1
                  = pendingRequestCancelTokenSources s @ [sourcesCreated s]"
    by (simp add: assms(3) start_attempt_frame(4))
  have kept: "pendingRequestCancelTokenSources
                (snd (catch_handler b cfg ctl opts k (sourcesCreated s) n err0 s1))
              = pendingRequestCancelTokenSources s @ [sourcesCreated s]"
    using catch_handler_keeps_registry [OF assms(1)] pushed by simp
  have settled: "fst (attempts b cfg ctl opts rid k n (Failed err0 # answers) s) = Rejected (RawError err)
             \<and> pendingRequestCancelTokenSources
                   (snd (attempts b cfg ctl opts rid k n (Failed err0 # answers) s))
                 = pendingRequestCancelTokenSources s @ [sourcesCreated s]"
    if w: "requestWillRetry b ctl Uninitialised err0 n = Some False"
  proof -
    have ch: "catch_handler b cfg ctl opts k (sourcesCreated s) n err0 s1 =
                (Done (Rejected (RawError err)),
                 rejectRequest k (RawError err)
                   (s1\<lparr>trace := trace s1 @ map (\<lambda>listener. ErrorEvent listener err)
                                               (eventsQueue_error s1)\<rparr>))"
      using catch_handler_plain_reject [OF assms(1) w] by (simp add: Let_def assms(2))
    have run: "attempts b cfg ctl opts rid k n (Failed err0 # answers) s =
                 (Rejected (RawError err), snd (catch_handler b cfg ctl opts k (sourcesCreated s) n err0 s1))"
      by (simp add: attempts_Failed ch assms(3) [symmetric] del: attempts.simps)
    show ?thesis using kept by (simp add: run del: attempts.simps)
  qed
  show ?thesis using pushed kept settled by blast
qed

theorem C7_source_stays_registered_without_preprocessing_witness:
  "fst (fetchData sample_hash True False plain_errors_configuration no_hooks 0
          (get_request ''/users'') 1 [Failed (sample_error 400 ''bad'')] initial_state)
     = Some (Rejected (RawError (sample_error 400 ''bad'')))
   \<and> pendingRequestCancelTokenSources
       (snd (fetchData sample_hash True False plain_errors_configuration no_hooks 0
          (get_request ''/users'') 1 [Failed (sample_error 400 ''bad'')] initial_state)) = [0]"
proof -
  let ?err = "sample_error 400 ''bad''"
  let ?opts = "get_request ''/users''"
  have h1: "\<not> preProcessResponseErrorMessages plain_errors_configuration"
    by (simp add: plain_errors_configuration_def)
  have h2: "requestWillRetry False no_hooks Uninitialised ?err 0 = Some False"
    by (simp add: requestWillRetry_in_handler no_hooks_def)
  have h3: "?err = (case RequestController_processResponseError no_hooks of
                      Some f \<Rightarrow> f ?err
                    | None \<Rightarrow> ?err)"
    by (simp add: no_hooks_def)
  note th = C7_source_stays_registered_without_preprocessing [OF h1 h3 refl, where opts = ?opts
      and b = False and n = 0 and rid = 6 and k = 6 and answers = "[]" and s = "one_waiting ?opts"]
  have s0: "pendingRequestCancelTokenSources (one_waiting ?opts) = []"
    "sourcesCreated (one_waiting ?opts) = 0"
    by (simp_all add: one_waiting_def initial_state_def)
  note f = first_users_call [where fd = True and b = False and cfg = plain_errors_configuration
      and ctl = no_hooks and now = 0 and answers = "[Failed ?err]"]
  show ?thesis using th h2 s0 f by (simp del: attempts.simps)
qed

section \<open>Multipart bodies\<close>

text \<open>
  C8, what the code does. Two queued requests whose bodies are \<open>FormData\<close> objects
  (any two, also different ones) and whose other options are the same, enqueued at the
  same reading of \<open>Date.now()\<close>: their hashables are equal, so whatever the hash
  function they have the same key, and the second joins the group of the first instead
  of being dispatched.
\<close>

theorem C8_uploads_in_one_millisecond_share_a_group:
  assumes "data q1 = FormData fd1" and "data q2 = FormData fd2"
    and "url q1 = url q2" and "request_method q1 = request_method q2"
    and "getRequestController q1 = getRequestController q2"
    and "axios_config q1 = axios_config q2"
    and "requestQueue s (hashIt (hashableRequestOptions True now q1)) = None"
  shows "hashableRequestOptions True now q1 = hashableRequestOptions True now q2
       \<and> fst (enqueue_all hashIt True [(now, q1), (now, q2)] s)
           = [Some (hashIt (hashableRequestOptions True now q1)), None]
       \<and> requestQueue (snd (enqueue_all hashIt True [(now, q1), (now, q2)] s))
            (hashIt (hashableRequestOptions True now q1)) = Some [q1, q2]"
proof -
  have same: "hashableRequestOptions True now q1 = hashableRequestOptions True now q2"
    using assms(1-6) by (simp add: hashableRequestOptions_def request_options.defs)
  let ?k = "hashIt (hashableRequestOptions True now q1)"
  have k2: "hashIt (hashableRequestOptions True now q2) = ?k" using same by simp
  have first: "queueRequest hashIt True now q1 s
                 = (Some ?k, s\<lparr>requestQueue := (requestQueue s)(?k \<mapsto> [q1])\<rparr>)"
    using refl assms(7) by (rule queueRequest_new)
  have second: "queueRequest hashIt True now q2 (s\<lparr>requestQueue := (requestQueue s)(?k \<mapsto> [q1])\<rparr>)
                  = (None, s\<lparr>requestQueue := (requestQueue s)(?k \<mapsto> [q1, q2])\<rparr>)"
    by (simp add: queueRequest_def k2)
  show ?thesis using same first second by simp
qed

theorem C8_uploads_in_one_millisecond_share_a_group_witness:
  "FormData 31 \<noteq> FormData 32
   \<and> fst (enqueue_all sample_hash True
        [(1700000000000, queued (upload_request ''/upload'' 31) 41),
         (1700000000000, queued (upload_request ''/upload'' 32) 42)] initial_state)
       = [Some 7, None]"
proof -
  let ?q1 = "queued (upload_request ''/upload'' 31) 41"
  let ?q2 = "queued (upload_request ''/upload'' 32) 42"
  have h1: "data ?q1 = FormData 31" and h2: "data ?q2 = FormData 32"
    and h3: "url ?q1 = url ?q2" and h4: "request_method ?q1 = request_method ?q2"
    and h5: "getRequestController ?q1 = getRequestController ?q2"
    and h6: "axios_config ?q1 = axios_config ?q2"
    by (simp_all add: queued_def upload_request_def request_options.defs)
  have k: "sample_hash (hashableRequestOptions True 1700000000000 ?q1) = 7"
    by (simp add: sample_hash_def hashableRequestOptions_def queued_def upload_request_def
        request_options.defs)
  have h7: "requestQueue initial_state (sample_hash (hashableRequestOptions True 1700000000000 ?q1))
              = None"
    by (rule initial_state_no_group)
  from C8_uploads_in_one_millisecond_share_a_group [where hashIt = sample_hash, OF h1 h2 h3 h4 h5 h6 h7]
  show ?thesis by (simp add: k del: enqueue_all.simps)
qed

section \<open>Concurrent calls with one fingerprint\<close>

text \<open>
  C1. Calls of \<open>queueRequest\<close> whose options hash to the same key \<open>k\<close>, made while no
  settlement comes in between, starting where no group of \<open>k\<close> exists: the callback
  (which alone starts the transport) is invoked for the first call and for no other; all
  callers are queued in the group, in order; and \<open>resolveRequest\<close> (\<open>rejectRequest\<close>)
  then hands every one of them the one payload (error), and deletes the group. When the
  callback of the first caller runs in that state and resolves (rejects), every one of
  the callers receives its payload (error); and when it has no cache to ask and the
  transport answers its first attempt with a response, that attempt is the only
  transport call made for all of them.
\<close>

theorem C1_one_callback_one_settlement:
  assumes "cs \<noteq> []"
    and "\<forall>c \<in> set cs. hashIt (hashableRequestOptions fd (fst c) (snd c)) = k"
    and "requestQueue s k = None"
    and "s' = snd (enqueue_all hashIt fd cs s)"
  shows "fst (enqueue_all hashIt fd cs s) = Some k # replicate (length cs - 1) None
       \<and> requestQueue s' k = Some (map snd cs)
       \<and> trace (resolveRequest k p s') = trace s @ map (\<lambda>c. Resolve (waiter (snd c)) p) cs
       \<and> trace (rejectRequest k e s') = trace s @ map (\<lambda>c. Reject (waiter (snd c)) e) cs
       \<and> requestQueue (resolveRequest k p s') k = None
       \<and> requestQueue (rejectRequest k e s') k = None
       \<and> (fst (callback b cfg ctl opts rid k answers s') = Resolved p \<longrightarrow>
             (\<exists>pre. trace (snd (callback b cfg ctl opts rid k answers s'))
                      = pre @ map (\<lambda>c. Resolve (waiter (snd c)) p) cs))
       \<and> (fst (callback b cfg ctl opts rid k answers s') = Rejected e \<longrightarrow>
             (\<exists>pre. trace (snd (callback b cfg ctl opts rid k answers s'))
                      = pre @ map (\<lambda>c. Reject (waiter (snd c)) e) cs))
       \<and> (cacheId opts = None \<longrightarrow>
             transport_calls (trace (snd (callback b cfg ctl opts rid k (Fulfilled r # answers) s')))
               = Suc (transport_calls (trace s)))"
proof -
  from assms(1) obtain c rest where cs: "cs = c # rest" by (cases cs) auto
  let ?s1 = "s\<lparr>requestQueue := (requestQueue s)(k \<mapsto> [snd c])\<rparr>"
  have first: "queueRequest hashIt fd (fst c) (snd c) s = (Some k, ?s1)"
    using assms(2,3) cs by (simp add: queueRequest_new)
  have rest_keys: "\<forall>c \<in> set rest. hashIt (hashableRequestOptions fd (fst c) (snd c)) = k"
    using assms(2) cs by simp
  have "requestQueue ?s1 k = Some [snd c]" by simp
  from enqueue_all_joined [OF rest_keys this]
  have joined: "fst (enqueue_all hashIt fd rest ?s1) = replicate (length rest) None"
    and grp: "requestQueue (snd (enqueue_all hashIt fd rest ?s1)) k = Some ([snd c] @ map snd rest)"
    and tr: "trace (snd (enqueue_all hashIt fd rest ?s1)) = trace s"
    by simp_all
  have s': "s' = snd (enqueue_all hashIt fd rest ?s1)"
    using first cs assms(4) by (simp add: enqueue_all_Cons del: enqueue_all.simps)
  have ds: "fst (enqueue_all hashIt fd cs s) = Some k # replicate (length cs - 1) None"
    using first joined cs by (simp add: enqueue_all_Cons del: enqueue_all.simps)
  have g: "requestQueue s' k = Some (map snd cs)"
    using grp s' cs by simp
  have ne: "map snd cs \<noteq> []" using assms(1) by simp
  have t: "trace s' = trace s" using tr s' by simp
  have res: "trace (resolveRequest k p s') = trace s @ map (\<lambda>c. Resolve (waiter (snd c)) p) cs"
    using resolveRequest_group(1) [OF g ne] t by (simp add: comp_def)
  have rej: "trace (rejectRequest k e s') = trace s @ map (\<lambda>c. Reject (waiter (snd c)) e) cs"
    using rejectRequest_group(1) [OF g ne] t by (simp add: comp_def)
  have gone: "requestQueue (resolveRequest k p s') k = None"
    "requestQueue (rejectRequest k e s') k = None"
    using resolveRequest_group(2) [OF g ne] rejectRequest_group(2) [OF g ne] by simp_all
  have settled:
    "(fst (callback b cfg ctl opts rid k answers s') = Resolved p \<longrightarrow>
        (\<exists>pre. trace (snd (callback b cfg ctl opts rid k answers s'))
                 = pre @ map (\<lambda>c. Resolve (waiter (snd c)) p) cs))
     \<and> (fst (callback b cfg ctl opts rid k answers s') = Rejected e \<longrightarrow>
        (\<exists>pre. trace (snd (callback b cfg ctl opts rid k answers s'))
                 = pre @ map (\<lambda>c. Reject (waiter (snd c)) e) cs))"
    using callback_settles_group [OF g ne, of b cfg ctl opts rid answers p e]
    by (simp add: comp_def)
  have once: "cacheId opts = None \<longrightarrow>
     transport_calls (trace (snd (callback b cfg ctl opts rid k (Fulfilled r # answers) s')))
       = Suc (transport_calls (trace s))"
    by (simp add: callback_no_cacheId attempts_Fulfilled on_response_frame(1)
        start_attempt_frame(5) t del: attempts.simps)
  show ?thesis
    using ds g res rej gone settled once by blast
qed

theorem C1_one_callback_one_settlement_witness:
  "fst (enqueue_all sample_hash True
          [(0, queued (get_request ''/users'') 1), (3, queued (get_request ''/users'') 2)]
          initial_state) = [Some 6, None]
   \<and> trace (resolveRequest 6 (DataOnly JNull)
        (snd (enqueue_all sample_hash True
          [(0, queued (get_request ''/users'') 1), (3, queued (get_request ''/users'') 2)]
          initial_state))) = [Resolve 1 (DataOnly JNull), Resolve 2 (DataOnly JNull)]
   \<and> transport_calls (trace (snd (callback False created_configuration no_hooks
        (get_request ''/users'') 6 6 [Fulfilled (sample_response 200 JNull)]
        (snd (enqueue_all sample_hash True
          [(0, queued (get_request ''/users'') 1), (3, queued (get_request ''/users'') 2)]
          initial_state))))) = 1"
proof -
  let ?cs = "[(0::nat, queued (get_request ''/users'') 1), (3, queued (get_request ''/users'') 2)]"
  have h1: "?cs \<noteq> []" by simp
  have h2: "\<forall>c \<in> set ?cs. sample_hash (hashableRequestOptions True (fst c) (snd c)) = 6"
    by (simp add: sample_hash_users)
  have h3: "requestQueue initial_state 6 = None" by (rule initial_state_no_group)
  note th = C1_one_callback_one_settlement [OF h1 h2 h3 refl, of "DataOnly JNull" "ErrorValue []"
      False created_configuration no_hooks "get_request ''/users''" 6
      "[]" "sample_response 200 JNull"]
  have w: "waiter (queued (get_request ''/users'') n) = n" for n
    by (simp add: queued_def request_options.defs)
  have t0: "trace initial_state = []" by (simp add: initial_state_def)
  have a: "fst (enqueue_all sample_hash True ?cs initial_state) = [Some 6, None]"
    using th [THEN conjunct1] by simp
  have b: "trace (resolveRequest 6 (DataOnly JNull) (snd (enqueue_all sample_hash True ?cs initial_state)))
             = [Resolve 1 (DataOnly JNull), Resolve 2 (DataOnly JNull)]"
    using th [THEN conjunct2, THEN conjunct2, THEN conjunct1] by (simp add: w t0)
  have c: "transport_calls (trace (snd (callback False created_configuration no_hooks
             (get_request ''/users'') 6 6 [Fulfilled (sample_response 200 JNull)]
             (snd (enqueue_all sample_hash True ?cs initial_state))))) = 1"
    using th get_request_no_cacheId [of "''/users''"] by (simp add: t0 del: attempts.simps enqueue_all.simps)
  show ?thesis using a b c by simp
qed


end
